theory Spec2Isabelle
  imports Main "HOL-Library.Sublist"
begin

section \<open>The Alertmanager alert provider of Gatus\<close>

text \<open>
  A shallow embedding of \<^verbatim>\<open>alerting/provider/alertmanager/alertmanager.go\<close>.
  Go maps are reference objects: a field of type \<^verbatim>\<open>map[string]string\<close> holds
  either nil or the address of a map object, and two fields may hold the same address.
  The embedding therefore keeps the map objects in an explicit store and threads the store
  through every function that creates or writes a map.
\<close>

subsection \<open>Map objects and the store\<close>

type_synonym gomap = "string \<rightharpoonup> string"

type_synonym ref = nat

text \<open>
  \<open>cells h r\<close> is the content of the map object at address \<open>r\<close>; the map objects made so
  far are the ones at the addresses below \<open>next_ref h\<close>.
\<close>

record heap =
  cells :: "ref \<Rightarrow> gomap"
  next_ref :: ref

text \<open>\<^verbatim>\<open>make(map[string]string)\<close>: a new, empty map object at an address not used before.\<close>

definition make_map :: "heap \<Rightarrow> heap \<times> ref" where
  "make_map h =
     (h\<lparr>cells := (cells h)(next_ref h := Map.empty), next_ref := Suc (next_ref h)\<rparr>, next_ref h)"

text \<open>Reading through a map-typed field: a nil map reads as a map with no entry.\<close>

definition entries :: "heap \<Rightarrow> ref option \<Rightarrow> gomap" where
  "entries h m = (case m of None \<Rightarrow> Map.empty | Some r \<Rightarrow> cells h r)"

text \<open>\<^verbatim>\<open>len(m) > 0\<close> on a map-typed field (\<^verbatim>\<open>len\<close> of a nil map is 0).\<close>

definition len_pos :: "heap \<Rightarrow> ref option \<Rightarrow> bool" where
  "len_pos h m = (entries h m \<noteq> Map.empty)"

text \<open>
  The loop \<^verbatim>\<open>for k, v := range src { dst[k] = v }\<close>: every entry of \<open>src\<close> is stored in
  the map object at \<open>dst\<close>. Whatever order the entries are visited in, the object ends up
  holding its old entries overridden by those of \<open>src\<close> (lemma \<open>range_assign_any_order\<close>
  below).
\<close>

definition range_assign :: "heap \<Rightarrow> ref \<Rightarrow> gomap \<Rightarrow> heap" where
  "range_assign h dst src = h\<lparr>cells := (cells h)(dst := cells h dst ++ src)\<rparr>"

subsection \<open>Config\<close>

text \<open>
  \<^verbatim>\<open>time.Duration\<close> is a signed count of nanoseconds; the code only compares durations
  with zero and copies them, so they are integers here. \<open>ClientConfig\<close> is a pointer to a
  \<^verbatim>\<open>client.Config\<close> that this file never writes through: \<open>None\<close> is nil and \<open>Some c\<close>
  points to \<open>c\<close>, a value of the type parameter \<open>'c\<close>. The type parameter \<open>'m\<close> is what a
  map-typed field holds: an address (\<open>ref\<close>) in the program's own data, the map itself in
  the result of decoding a YAML document.
\<close>

type_synonym Duration = int

definition Second :: Duration where
  "Second = 1000000000"

record ('m, 'c) Config =
  URL :: string
  Timeout :: Duration
  DefaultSeverity :: string
  ExtraLabels :: "'m option"
  ExtraAnnotations :: "'m option"
  ClientConfig :: "'c option"

datatype error =
    ErrAlertmanagerURLNotSet
  | ErrYaml string
  | ErrMarshal string
  | ErrCreateRequest string
  | ErrSendRequest string
  | ErrStatus int string
  | NilPointerPanic

text \<open>
  \<open>Validate\<close> has a pointer receiver and assigns to its fields: the model returns the
  receiver after the call together with the returned error (\<open>None\<close> is nil).
\<close>

definition Validate :: "('m, 'c) Config \<Rightarrow> ('m, 'c) Config \<times> error option" where
  "Validate cfg =
     (if length (URL cfg) = 0 then (cfg, Some ErrAlertmanagerURLNotSet)
      else
        let cfg = (if Timeout cfg = 0 then cfg\<lparr>Timeout := 10 * Second\<rparr> else cfg);
            cfg = (if length (DefaultSeverity cfg) = 0
                   then cfg\<lparr>DefaultSeverity := ''critical''\<rparr> else cfg)
        in (cfg, None))"

text \<open>
  The two map blocks of \<open>Merge\<close> (lines 70-77 for \<open>ExtraLabels\<close>, 78-85 for
  \<open>ExtraAnnotations\<close>) are the same code on different fields; \<open>merge_map\<close> is that block,
  on the receiver's field \<open>dst\<close> and the override's field \<open>src\<close>. It returns the store and
  the receiver's field after the block.
\<close>

definition merge_map :: "heap \<Rightarrow> ref option \<Rightarrow> ref option \<Rightarrow> heap \<times> ref option" where
  "merge_map h dst src =
     (if len_pos h src then
        let (h, r) = (case dst of None \<Rightarrow> make_map h | Some r \<Rightarrow> (h, r))
        in (range_assign h r (entries h src), Some r)
      else (h, dst))"

definition Merge ::
  "heap \<Rightarrow> (ref, 'c) Config \<Rightarrow> (ref, 'c) Config \<Rightarrow> heap \<times> (ref, 'c) Config" where
  "Merge h cfg override =
     (let cfg = (if ClientConfig override \<noteq> None
                 then cfg\<lparr>ClientConfig := ClientConfig override\<rparr> else cfg);
          cfg = (if length (URL override) > 0 then cfg\<lparr>URL := URL override\<rparr> else cfg);
          cfg = (if Timeout override > 0 then cfg\<lparr>Timeout := Timeout override\<rparr> else cfg);
          cfg = (if length (DefaultSeverity override) > 0
                 then cfg\<lparr>DefaultSeverity := DefaultSeverity override\<rparr> else cfg);
          (h, labels) = merge_map h (ExtraLabels cfg) (ExtraLabels override);
          cfg = cfg\<lparr>ExtraLabels := labels\<rparr>;
          (h, annotations) = merge_map h (ExtraAnnotations cfg) (ExtraAnnotations override);
          cfg = cfg\<lparr>ExtraAnnotations := annotations\<rparr>
      in (h, cfg))"

subsection \<open>The provider and its collaborators\<close>

text \<open>
  \<open>Override\<close> embeds a \<open>Config\<close> next to the group it applies to. The \<open>Overrides\<close> of a
  provider are a slice, read only by \<^verbatim>\<open>range\<close>: a list, nil being the empty list.
\<close>

record 'c Override =
  Group :: string
  Config :: "(ref, 'c) Config"

text \<open>
  Modelled from the spec: package \<^verbatim>\<open>alert\<close> is not among the sources. The spec describes
  an alert descriptor "exposing an optional description and an optional raw per-alert
  override blob in the same schema as Config" (bytes, may be empty). \<open>GetDescription\<close>
  is the empty string when there is no description, and \<open>ProviderOverrideAsBytes\<close> is the
  blob.
\<close>

record Alert =
  Description :: "string option"
  ProviderOverride :: string

definition GetDescription :: "Alert \<Rightarrow> string" where
  "GetDescription alert = (case Description alert of None \<Rightarrow> [] | Some d \<Rightarrow> d)"

definition ProviderOverrideAsBytes :: "Alert \<Rightarrow> string" where
  "ProviderOverrideAsBytes alert = ProviderOverride alert"

record 'c AlertProvider =
  DefaultConfig :: "(ref, 'c) Config"
  DefaultAlert :: "Alert option"
  Overrides :: "'c Override list"

text \<open>
  Modelled from the spec: package \<^verbatim>\<open>endpoint\<close> is not among the sources. An endpoint
  descriptor exposes name, URL and group; a check result exposes a success flag and a list
  of error strings. Their fields carry the prefix \<open>ep_\<close> and \<open>res_\<close> here, the names
  \<open>URL\<close> and \<open>Group\<close> being fields of \<open>Config\<close> and \<open>Override\<close>.
\<close>

record Endpoint =
  ep_Name :: string
  ep_URL :: string
  ep_Group :: string

record Result =
  res_Success :: bool
  res_Errors :: "string list"

text \<open>
  \<^verbatim>\<open>time.Time\<close>: an instant, as the nanoseconds elapsed since the instant that is the
  zero value of the type.
\<close>

type_synonym Time = int

definition zero_Time :: Time where
  "zero_Time = 0"

text \<open>
  The payload. Its two maps are made by \<open>buildAlert\<close> and never shared, so the payload
  holds them by value.
\<close>

record AlertmanagerAlert =
  Labels :: gomap
  Annotations :: gomap
  StartsAt :: Time
  EndsAt :: Time

subsection \<open>GetConfig\<close>

text \<open>
  \<^verbatim>\<open>yaml.Unmarshal(bytes, &overrideConfig)\<close> on a zero \<open>Config\<close>. The decoder is a
  library outside the repository: \<open>decode\<close>, a parameter, is what it reads from the
  bytes (\<open>Inl\<close> its error message). The maps of the decoded value are new map objects.
\<close>

definition new_map :: "heap \<Rightarrow> gomap option \<Rightarrow> heap \<times> ref option" where
  "new_map h m =
     (case m of
        None \<Rightarrow> (h, None)
      | Some content \<Rightarrow> let (h, r) = make_map h in (range_assign h r content, Some r))"

definition yaml_Unmarshal ::
  "(string \<Rightarrow> string + (gomap, 'c) Config) \<Rightarrow> heap \<Rightarrow> string \<Rightarrow>
     heap \<times> (string + (ref, 'c) Config)" where
  "yaml_Unmarshal decode h bytes =
     (case decode bytes of
        Inl err \<Rightarrow> (h, Inl err)
      | Inr v \<Rightarrow>
          let (h, labels) = new_map h (ExtraLabels v);
              (h, annotations) = new_map h (ExtraAnnotations v)
          in (h, Inr \<lparr>URL = URL v, Timeout = Timeout v, DefaultSeverity = DefaultSeverity v,
                      ExtraLabels = labels, ExtraAnnotations = annotations,
                      ClientConfig = ClientConfig v\<rparr>))"

text \<open>
  The deep copy of one map field (lines 232-238 and 239-245): nil stays nil, otherwise a
  new map object receives every entry of the old one.
\<close>

definition copy_map :: "heap \<Rightarrow> ref option \<Rightarrow> heap \<times> ref option" where
  "copy_map h m =
     (case m of
        None \<Rightarrow> (h, None)
      | Some old \<Rightarrow> let (h, r) = make_map h in (range_assign h r (cells h old), Some r))"

text \<open>The loop over the overrides (\<open>grp\<close> is the parameter \<^verbatim>\<open>group\<close>): the first override
  of the group is merged, then \<^verbatim>\<open>break\<close>.\<close>

fun group_override ::
  "heap \<Rightarrow> (ref, 'c) Config \<Rightarrow> string \<Rightarrow> 'c Override list \<Rightarrow> heap \<times> (ref, 'c) Config" where
  "group_override h cfg grp [] = (h, cfg)"
| "group_override h cfg grp (override # rest) =
     (if grp = Group override then Merge h cfg (Config override)
      else group_override h cfg grp rest)"

text \<open>
  \<open>GetConfig\<close> returns a pointer and an error: \<open>(None, Some err)\<close> when the override of the
  alert does not decode, otherwise the address of its local \<open>cfg\<close> (\<open>Some cfg\<close>, the value
  found there) with the error of \<open>Validate\<close>.
\<close>

definition GetConfig ::
  "(string \<Rightarrow> string + (gomap, 'c) Config) \<Rightarrow> heap \<Rightarrow> 'c AlertProvider \<Rightarrow> string \<Rightarrow> Alert \<Rightarrow>
     heap \<times> (ref, 'c) Config option \<times> error option" where
  "GetConfig decode h provider grp alert =
     (let cfg = DefaultConfig provider;
          (h, extraLabels) = copy_map h (ExtraLabels cfg);
          cfg = cfg\<lparr>ExtraLabels := extraLabels\<rparr>;
          (h, extraAnnotations) = copy_map h (ExtraAnnotations cfg);
          cfg = cfg\<lparr>ExtraAnnotations := extraAnnotations\<rparr>;
          (h, cfg) = group_override h cfg grp (Overrides provider)
      in if length (ProviderOverride alert) \<noteq> 0 then
           (case yaml_Unmarshal decode h (ProviderOverrideAsBytes alert) of
              (h, Inl err) \<Rightarrow> (h, None, Some (ErrYaml err))
            | (h, Inr overrideConfig) \<Rightarrow>
                let (h, cfg) = Merge h cfg overrideConfig;
                    (cfg, err) = Validate cfg
                in (h, Some cfg, err))
         else
           let (cfg, err) = Validate cfg in (h, Some cfg, err))"

subsection \<open>Strings\<close>

text \<open>
  \<^verbatim>\<open>strings.HasSuffix\<close>, \<^verbatim>\<open>strings.TrimSuffix\<close> and \<^verbatim>\<open>strings.Join\<close> of Go's
  library, and the decimal numeral that the verb \<^verbatim>\<open>%d\<close> prints.
\<close>

definition HasSuffix :: "string \<Rightarrow> string \<Rightarrow> bool" where
  "HasSuffix s suf = (length s \<ge> length suf \<and> drop (length s - length suf) s = suf)"

definition TrimSuffix :: "string \<Rightarrow> string \<Rightarrow> string" where
  "TrimSuffix s suf = (if HasSuffix s suf then take (length s - length suf) s else s)"

fun Join :: "string list \<Rightarrow> string \<Rightarrow> string" where
  "Join [] sep = []"
| "Join [x] sep = x"
| "Join (x # y # ys) sep = x @ sep @ Join (y # ys) sep"

fun digits :: "nat \<Rightarrow> string" where
  "digits n =
     (if n < 10 then [''0123456789'' ! n]
      else digits (n div 10) @ [''0123456789'' ! (n mod 10)])"

declare digits.simps [simp del]

definition itoa :: "int \<Rightarrow> string" where
  "itoa i = (if i < 0 then CHR ''-'' # digits (nat (- i)) else digits (nat i))"

text \<open>The message of an error (\<^verbatim>\<open>err.Error()\<close>), as the calls of \<^verbatim>\<open>fmt.Errorf\<close> format it.\<close>

fun Error :: "error \<Rightarrow> string" where
  "Error ErrAlertmanagerURLNotSet = ''alertmanager URL not set''"
| "Error (ErrYaml msg) = msg"
| "Error (ErrMarshal msg) = ''failed to marshal alerts: '' @ msg"
| "Error (ErrCreateRequest msg) = ''failed to create request: '' @ msg"
| "Error (ErrSendRequest msg) = ''failed to send request to Alertmanager: '' @ msg"
| "Error (ErrStatus code body) =
     ''Alertmanager returned status '' @ itoa code @ '': '' @ body"
| "Error NilPointerPanic = ''invalid memory address or nil pointer dereference''"

subsection \<open>buildAlert\<close>

text \<open>
  \<open>now\<close> is what \<^verbatim>\<open>time.Now()\<close> returns. The function reads the two maps of \<open>cfg\<close> in
  the store \<open>h\<close> and writes none. Its pointer arguments are values here: \<open>Send\<close> passes
  the configuration it has just received from \<open>GetConfig\<close>, and the endpoint, the alert
  and the result of its caller, none of them nil.
\<close>

definition buildAlert ::
  "heap \<Rightarrow> Time \<Rightarrow> (ref, 'c) Config \<Rightarrow> Endpoint \<Rightarrow> Alert \<Rightarrow> Result \<Rightarrow> bool \<Rightarrow>
     AlertmanagerAlert" where
  "buildAlert h now cfg ep alert result resolved =
     (let alertPayload =
            \<lparr>Labels = Map.empty, Annotations = Map.empty, StartsAt = now, EndsAt = zero_Time\<rparr>;
          labels = (Labels alertPayload)(''alertname'' \<mapsto> ''GatusEndpointDown'');
          labels = labels(''instance'' \<mapsto> ep_URL ep);
          labels = labels(''job'' \<mapsto> ''gatus'');
          labels = labels(''severity'' \<mapsto> DefaultSeverity cfg);
          labels = labels(''endpoint'' \<mapsto> ep_Name ep);
          labels = (if ep_Group ep \<noteq> [] then labels(''group'' \<mapsto> ep_Group ep) else labels);
          labels = labels ++ entries h (ExtraLabels cfg);
          alertPayload = alertPayload\<lparr>Labels := labels\<rparr>;
          alertPayload =
            (if resolved then
               alertPayload
                 \<lparr>Annotations := (Annotations alertPayload)
                    (''summary'' \<mapsto> ''Endpoint '' @ ep_Name ep @ '' is now healthy'',
                     ''description'' \<mapsto> ''Endpoint '' @ ep_Name ep @ '' ('' @ ep_URL ep
                        @ '') has recovered and is now passing health checks''),
                  EndsAt := now\<rparr>
             else
               let annotations = (Annotations alertPayload)
                     (''summary'' \<mapsto> ''Endpoint '' @ ep_Name ep @ '' is down'');
                   description = ''Endpoint '' @ ep_Name ep @ '' ('' @ ep_URL ep
                     @ '') has failed health checks'';
                   description =
                     (if length (res_Errors result) > 0
                      then description @ ''. Errors: '' @ Join (res_Errors result) '', ''
                      else description)
               in alertPayload\<lparr>Annotations := annotations(''description'' \<mapsto> description)\<rparr>);
          alertPayload =
            (if GetDescription alert \<noteq> []
             then alertPayload\<lparr>Annotations :=
                    (Annotations alertPayload)(''alert_description'' \<mapsto> GetDescription alert)\<rparr>
             else alertPayload);
          alertPayload = alertPayload\<lparr>Annotations :=
                    Annotations alertPayload ++ entries h (ExtraAnnotations cfg)\<rparr>
      in alertPayload)"

subsection \<open>Delivery\<close>

text \<open>
  The request that \<^verbatim>\<open>http.NewRequest\<close> builds, the response as far as the code looks at
  it (\<open>resp_Body\<close> is what \<^verbatim>\<open>io.ReadAll(resp.Body)\<close> returns), and the HTTP client:
  what the factory returned and the value assigned to its field \<^verbatim>\<open>Timeout\<close>, if any.
\<close>

record Request =
  Method :: string
  req_URL :: string
  Header :: "string \<rightharpoonup> string"
  Body :: string

record Response =
  StatusCode :: int
  resp_Body :: string

record 'k http_Client =
  made_by_factory :: 'k
  client_Timeout :: "Duration option"

text \<open>
  What lies outside the file is a parameter: \<open>json_Marshal\<close> encodes the payloads,
  \<open>url_Parse\<close> is the error, if any, that makes \<^verbatim>\<open>http.NewRequest\<close> refuse a URL,
  \<open>GetHTTPClient\<close> is the client factory of package \<^verbatim>\<open>client\<close>, and \<open>Do\<close> is the network:
  the transport error or the response that a client gets for a request. Closing the
  body of the response (\<^verbatim>\<open>defer resp.Body.Close()\<close>) changes nothing the function returns
  and has no counterpart here.
\<close>

record ('c, 'k) Net =
  json_Marshal :: "AlertmanagerAlert list \<Rightarrow> string + string"
  url_Parse :: "string \<Rightarrow> string option"
  GetHTTPClient :: "'c option \<Rightarrow> 'k"
  Do :: "'k http_Client \<Rightarrow> Request \<Rightarrow> string + Response"

definition http_NewRequest ::
  "('c, 'k) Net \<Rightarrow> string \<Rightarrow> string \<Rightarrow> string \<Rightarrow> string + Request" where
  "http_NewRequest net method url body =
     (case url_Parse net url of
        Some err \<Rightarrow> Inl err
      | None \<Rightarrow> Inr \<lparr>Method = method, req_URL = url, Header = Map.empty, Body = body\<rparr>)"

definition sendToAlertmanager ::
  "('c, 'k) Net \<Rightarrow> (ref, 'c) Config \<Rightarrow> AlertmanagerAlert list \<Rightarrow> error option" where
  "sendToAlertmanager net cfg alerts =
     (case json_Marshal net alerts of
        Inl err \<Rightarrow> Some (ErrMarshal err)
      | Inr jsonPayload \<Rightarrow>
          let url = TrimSuffix (URL cfg) ''/'';
              url = (if \<not> HasSuffix url ''/api/v2/alerts'' then url @ ''/api/v2/alerts'' else url)
          in (case http_NewRequest net ''POST'' url jsonPayload of
                Inl err \<Rightarrow> Some (ErrCreateRequest err)
              | Inr req \<Rightarrow>
                  let req = req\<lparr>Header := (Header req)(''Content-Type'' \<mapsto> ''application/json'')\<rparr>;
                      httpClient = \<lparr>made_by_factory = GetHTTPClient net (ClientConfig cfg),
                                    client_Timeout = None\<rparr>;
                      httpClient = (if Timeout cfg > 0
                                    then httpClient\<lparr>client_Timeout := Some (Timeout cfg)\<rparr>
                                    else httpClient)
                  in (case Do net httpClient req of
                        Inl err \<Rightarrow> Some (ErrSendRequest err)
                      | Inr resp \<Rightarrow>
                          if StatusCode resp < 200 \<or> StatusCode resp \<ge> 300
                          then Some (ErrStatus (StatusCode resp) (resp_Body resp))
                          else None)))"

text \<open>
  \<open>Send\<close>. \<open>GetConfig\<close> never returns a nil pointer with a nil error (lemma
  \<open>GetConfig_pointer_or_error\<close>); the branch is there because the types allow it.
\<close>

definition Send ::
  "(string \<Rightarrow> string + (gomap, 'c) Config) \<Rightarrow> ('c, 'k) Net \<Rightarrow> Time \<Rightarrow> heap \<Rightarrow>
     'c AlertProvider \<Rightarrow> Endpoint \<Rightarrow> Alert \<Rightarrow> Result \<Rightarrow> bool \<Rightarrow> heap \<times> error option" where
  "Send decode net now h provider ep alert result resolved =
     (case GetConfig decode h provider (ep_Group ep) alert of
        (h, cfg, Some err) \<Rightarrow> (h, Some err)
      | (h, None, None) \<Rightarrow> (h, Some NilPointerPanic)
      | (h, Some cfg, None) \<Rightarrow>
          let alertPayload = buildAlert h now cfg ep alert result resolved
          in (h, sendToAlertmanager net cfg [alertPayload]))"

subsection \<open>Allocated addresses and shared map objects\<close>

text \<open>
  The zero value \<^verbatim>\<open>Config{}\<close>. Merging it changes nothing: it stands for the override of
  a group that has none, and for the override of an alert whose blob is empty.
\<close>

definition zero_Config :: "('m, 'c) Config" where
  "zero_Config =
     \<lparr>URL = [], Timeout = 0, DefaultSeverity = [], ExtraLabels = None,
      ExtraAnnotations = None, ClientConfig = None\<rparr>"

text \<open>
  The addresses a \<open>Config\<close> holds. A running program only ever holds addresses of map
  objects that have been made: \<open>allocated\<close> says so of a \<open>Config\<close>, \<open>provider_allocated\<close>
  of a provider.
\<close>

definition map_refs :: "(ref, 'c) Config \<Rightarrow> ref set" where
  "map_refs cfg = set_option (ExtraLabels cfg) \<union> set_option (ExtraAnnotations cfg)"

definition allocated :: "heap \<Rightarrow> (ref, 'c) Config \<Rightarrow> bool" where
  "allocated h cfg = (\<forall>r \<in> map_refs cfg. r < next_ref h)"

definition provider_allocated :: "heap \<Rightarrow> 'c AlertProvider \<Rightarrow> bool" where
  "provider_allocated h provider =
     (allocated h (DefaultConfig provider) \<and>
      (\<forall>override \<in> set (Overrides provider). allocated h (Config override)))"

text \<open>Two map-typed fields hold the same map object: both hold the same address.\<close>

definition same_object :: "ref option \<Rightarrow> ref option \<Rightarrow> bool" where
  "same_object m m' = (\<exists>r. m = Some r \<and> m' = Some r)"

subsection \<open>The data of the repository's test of Merge\<close>

text \<open>
  \<^verbatim>\<open>TestConfig_Merge\<close> merges an override with a severity, a label and an annotation into
  a base with a URL, a severity and a label. The three map literals of the test are the
  objects at the addresses 0, 1 and 2 of \<open>test_store\<close>; \<open>test_merged_store\<close> and
  \<open>test_merged\<close> are the store and the base after the call.
\<close>

definition test_store :: heap where
  "test_store =
     \<lparr>cells = (\<lambda>_. Map.empty)
        (0 := [''team'' \<mapsto> ''platform''],
         1 := [''environment'' \<mapsto> ''test''],
         2 := [''runbook'' \<mapsto> ''https://wiki.example.com'']),
      next_ref = 3\<rparr>"

definition test_base :: "(ref, unit) Config" where
  "test_base =
     \<lparr>URL = ''http://base:9093'', Timeout = 0, DefaultSeverity = ''critical'',
      ExtraLabels = Some 0, ExtraAnnotations = None, ClientConfig = None\<rparr>"

definition test_override :: "(ref, unit) Config" where
  "test_override =
     \<lparr>URL = [], Timeout = 0, DefaultSeverity = ''warning'',
      ExtraLabels = Some 1, ExtraAnnotations = Some 2, ClientConfig = None\<rparr>"

definition test_merged_store :: heap where
  "test_merged_store =
     \<lparr>cells = (\<lambda>_. Map.empty)
        (0 := [''team'' \<mapsto> ''platform'', ''environment'' \<mapsto> ''test''],
         1 := [''environment'' \<mapsto> ''test''],
         2 := [''runbook'' \<mapsto> ''https://wiki.example.com''],
         3 := [''runbook'' \<mapsto> ''https://wiki.example.com'']),
      next_ref = 4\<rparr>"

definition test_merged :: "(ref, unit) Config" where
  "test_merged =
     \<lparr>URL = ''http://base:9093'', Timeout = 0, DefaultSeverity = ''warning'',
      ExtraLabels = Some 0, ExtraAnnotations = Some 3, ClientConfig = None\<rparr>"

text \<open>A \<open>Config\<close> and a shallow copy of it share the map object at address 0.\<close>

definition shared_store :: heap where
  "shared_store = \<lparr>cells = (\<lambda>_. Map.empty)(0 := [''team'' \<mapsto> ''platform'']), next_ref = 1\<rparr>"

definition shared_config :: "(ref, unit) Config" where
  "shared_config =
     \<lparr>URL = ''http://base:9093'', Timeout = 0, DefaultSeverity = ''critical'',
      ExtraLabels = Some 0, ExtraAnnotations = None, ClientConfig = None\<rparr>"

text \<open>
  A \<open>Config\<close> whose two map fields hold one map object (address 0), and an override with
  an annotation (address 1).
\<close>

definition twin_store :: heap where
  "twin_store =
     \<lparr>cells = (\<lambda>_. Map.empty)
        (0 := [''team'' \<mapsto> ''platform''],
         1 := [''runbook'' \<mapsto> ''https://wiki.example.com'']),
      next_ref = 2\<rparr>"

definition twin_config :: "(ref, unit) Config" where
  "twin_config =
     \<lparr>URL = ''http://base:9093'', Timeout = 0, DefaultSeverity = ''critical'',
      ExtraLabels = Some 0, ExtraAnnotations = Some 0, ClientConfig = None\<rparr>"

definition twin_override :: "(ref, unit) Config" where
  "twin_override =
     \<lparr>URL = [], Timeout = 0, DefaultSeverity = [],
      ExtraLabels = None, ExtraAnnotations = Some 1, ClientConfig = None\<rparr>"

subsection \<open>The request the specification describes\<close>

text \<open>
  The delivery target in the words of the specification: one trailing slash is trimmed,
  and \<^verbatim>\<open>/api/v2/alerts\<close> is appended unless the trimmed URL ends with it. The request
  is a POST to that target with the content type of JSON, made by the client of the
  factory with the configured timeout, if there is one.
\<close>

definition delivery_target :: "string \<Rightarrow> string" where
  "delivery_target url =
     (let trimmed = (if suffix ''/'' url then butlast url else url)
      in if suffix ''/api/v2/alerts'' trimmed then trimmed else trimmed @ ''/api/v2/alerts'')"

definition posted_request :: "string \<Rightarrow> string \<Rightarrow> Request" where
  "posted_request url payload =
     \<lparr>Method = ''POST'', req_URL = url,
      Header = [''Content-Type'' \<mapsto> ''application/json''], Body = payload\<rparr>"

definition configured_client :: "('c, 'k) Net \<Rightarrow> (ref, 'c) Config \<Rightarrow> 'k http_Client" where
  "configured_client net cfg =
     \<lparr>made_by_factory = GetHTTPClient net (ClientConfig cfg),
      client_Timeout = (if Timeout cfg > 0 then Some (Timeout cfg) else None)\<rparr>"

subsection \<open>The end-to-end scenario and the data of the repository's other tests\<close>

text \<open>
  The scenario of the specification: a provider with a URL and nothing else, the endpoint
  \<open>API\<close> of group \<open>prod\<close>, a check result without errors; \<open>scenario_config\<close> is the
  effective configuration of the scenario. \<open>plain_alert\<close> is the zero value of an alert:
  no description, no override. \<open>no_decoder\<close> is a decoder that accepts nothing.
\<close>

definition scenario_provider :: "unit AlertProvider" where
  "scenario_provider =
     \<lparr>DefaultConfig =
        \<lparr>URL = ''http://am:9093'', Timeout = 0, DefaultSeverity = [], ExtraLabels = None,
         ExtraAnnotations = None, ClientConfig = None\<rparr>,
      DefaultAlert = None, Overrides = []\<rparr>"

definition scenario_endpoint :: Endpoint where
  "scenario_endpoint = \<lparr>ep_Name = ''API'', ep_URL = ''https://api/health'', ep_Group = ''prod''\<rparr>"

definition scenario_result :: Result where
  "scenario_result = \<lparr>res_Success = False, res_Errors = []\<rparr>"

definition empty_store :: heap where
  "empty_store = \<lparr>cells = (\<lambda>_. Map.empty), next_ref = 0\<rparr>"

definition plain_alert :: Alert where
  "plain_alert = \<lparr>Description = None, ProviderOverride = []\<rparr>"

definition no_decoder :: "string \<Rightarrow> string + (gomap, unit) Config" where
  "no_decoder bytes = Inl ''yaml: not a mapping''"

definition config_at :: "string \<Rightarrow> (ref, unit) Config" where
  "config_at url =
     \<lparr>URL = url, Timeout = 0, DefaultSeverity = [], ExtraLabels = None,
      ExtraAnnotations = None, ClientConfig = None\<rparr>"

definition scenario_config :: "(ref, unit) Config" where
  "scenario_config =
     \<lparr>URL = ''http://am:9093'', Timeout = 10 * Second, DefaultSeverity = ''critical'',
      ExtraLabels = None, ExtraAnnotations = None, ClientConfig = None\<rparr>"

text \<open>
  \<^verbatim>\<open>TestAlertProvider_buildAlert\<close>: a configuration with a severity, one extra label (the
  map object at address 0) and one extra annotation (at address 1), an endpoint, an alert
  with a description and a result with two errors.
\<close>

definition buildAlert_test_store :: heap where
  "buildAlert_test_store =
     \<lparr>cells = (\<lambda>_. Map.empty)
        (0 := [''environment'' \<mapsto> ''test''],
         1 := [''runbook'' \<mapsto> ''https://wiki.example.com/runbook'']),
      next_ref = 2\<rparr>"

definition buildAlert_test_config :: "(ref, unit) Config" where
  "buildAlert_test_config =
     \<lparr>URL = ''http://alertmanager:9093'', Timeout = 0, DefaultSeverity = ''warning'',
      ExtraLabels = Some 0, ExtraAnnotations = Some 1, ClientConfig = None\<rparr>"

definition buildAlert_test_endpoint :: Endpoint where
  "buildAlert_test_endpoint =
     \<lparr>ep_Name = ''Test API'', ep_URL = ''https://api.example.com/health'',
      ep_Group = ''production''\<rparr>"

definition buildAlert_test_alert :: Alert where
  "buildAlert_test_alert =
     \<lparr>Description = Some ''API health check failed'', ProviderOverride = []\<rparr>"

definition buildAlert_test_result :: Result where
  "buildAlert_test_result =
     \<lparr>res_Success = False, res_Errors = [''connection timeout'', ''DNS resolution failed'']\<rparr>"

text \<open>A configuration whose extra annotations have an entry for the key \<open>summary\<close>.\<close>

definition summary_store :: heap where
  "summary_store =
     \<lparr>cells = (\<lambda>_. Map.empty)(0 := [''summary'' \<mapsto> ''API outage, see the runbook'']),
      next_ref = 1\<rparr>"

definition summary_config :: "(ref, unit) Config" where
  "summary_config =
     \<lparr>URL = ''http://am:9093'', Timeout = 10 * Second, DefaultSeverity = ''critical'',
      ExtraLabels = None, ExtraAnnotations = Some 0, ClientConfig = None\<rparr>"

text \<open>
  Two networks. \<open>mock_server code body\<close> answers every request with the status \<open>code\<close> and
  the body \<open>body\<close>, as the mock server of \<^verbatim>\<open>TestAlertProvider_Send\<close> does with 200.
  \<open>echo_network\<close> fails every request with a transport error that names the URL asked for.
\<close>

definition mock_server :: "int \<Rightarrow> string \<Rightarrow> (unit, unit) Net" where
  "mock_server code body =
     \<lparr>json_Marshal = (\<lambda>alerts. Inr ''[{}]''),
      url_Parse = (\<lambda>url. None),
      GetHTTPClient = (\<lambda>c. ()),
      Do = (\<lambda>client req. Inr \<lparr>StatusCode = code, resp_Body = body\<rparr>)\<rparr>"

definition echo_network :: "(unit, unit) Net" where
  "echo_network =
     \<lparr>json_Marshal = (\<lambda>alerts. Inr ''[{}]''),
      url_Parse = (\<lambda>url. None),
      GetHTTPClient = (\<lambda>c. ()),
      Do = (\<lambda>client req. Inl (req_URL req))\<rparr>"

subsection \<open>The layers of GetConfig\<close>

text \<open>
  The three layers in the words of the specification. The override of a group is the
  \<open>Config\<close> of the first override, in declaration order, whose Group equals the name, and
  the zero \<open>Config\<close> when there is none. The override of an alert is what its blob decodes
  to, and the zero \<open>Config\<close> when the blob is empty. \<open>decoded_entries\<close> reads a map of a
  decoded value, nil being a map with no entry.
\<close>

definition group_config :: "'c AlertProvider \<Rightarrow> string \<Rightarrow> (ref, 'c) Config" where
  "group_config provider grp =
     (case find (\<lambda>override. grp = Group override) (Overrides provider) of
        None \<Rightarrow> zero_Config
      | Some override \<Rightarrow> Config override)"

definition alert_override ::
  "(string \<Rightarrow> string + (gomap, 'c) Config) \<Rightarrow> Alert \<Rightarrow> string + (gomap, 'c) Config" where
  "alert_override decode alert =
     (if ProviderOverride alert = [] then Inr zero_Config
      else decode (ProviderOverrideAsBytes alert))"

definition decoded_entries :: "gomap option \<Rightarrow> gomap" where
  "decoded_entries m = (case m of None \<Rightarrow> Map.empty | Some c \<Rightarrow> c)"

text \<open>
  \<open>call_local h0 h cfg\<close>: in the store \<open>h\<close>, reached from \<open>h0\<close> during a call, the maps
  of \<open>cfg\<close> are objects made since \<open>h0\<close> and not one object, and every object of \<open>h0\<close>
  has the entries it had.
\<close>

definition call_local :: "heap \<Rightarrow> heap \<Rightarrow> (ref, 'c) Config \<Rightarrow> bool" where
  "call_local h0 h cfg =
     (next_ref h0 \<le> next_ref h \<and>
      (\<forall>r \<in> map_refs cfg. next_ref h0 \<le> r \<and> r < next_ref h) \<and>
      \<not> same_object (ExtraLabels cfg) (ExtraAnnotations cfg) \<and>
      (\<forall>r < next_ref h0. cells h r = cells h0 r))"

text \<open>
  A provider with a default label map (address 0) and three overrides: two for the group
  \<open>prod\<close>, the first with a label map (address 1), and one for the empty group. An alert
  whose override blob sets a severity and a label, and a decoder that reads that blob.
  \<open>first_call\<close> and \<open>second_call\<close> are two calls with the same inputs, the second in the
  store the first has left.
\<close>

definition layered_store :: heap where
  "layered_store =
     \<lparr>cells = (\<lambda>_. Map.empty)
        (0 := [''team'' \<mapsto> ''platform''],
         1 := [''team'' \<mapsto> ''payments'', ''tier'' \<mapsto> ''gold'']),
      next_ref = 2\<rparr>"

definition layered_provider :: "unit AlertProvider" where
  "layered_provider =
     \<lparr>DefaultConfig =
        \<lparr>URL = ''http://am:9093'', Timeout = 0, DefaultSeverity = ''critical'',
         ExtraLabels = Some 0, ExtraAnnotations = None, ClientConfig = None\<rparr>,
      DefaultAlert = None,
      Overrides =
        [\<lparr>Group = ''prod'',
          Config = \<lparr>URL = [], Timeout = 30 * Second, DefaultSeverity = ''warning'',
                    ExtraLabels = Some 1, ExtraAnnotations = None, ClientConfig = None\<rparr>\<rparr>,
         \<lparr>Group = ''prod'',
          Config = \<lparr>URL = ''http://other:9093'', Timeout = 0, DefaultSeverity = ''info'',
                    ExtraLabels = None, ExtraAnnotations = None, ClientConfig = None\<rparr>\<rparr>,
         \<lparr>Group = [],
          Config = \<lparr>URL = [], Timeout = 0, DefaultSeverity = ''low'',
                    ExtraLabels = None, ExtraAnnotations = None, ClientConfig = None\<rparr>\<rparr>]\<rparr>"

definition layered_alert :: Alert where
  "layered_alert =
     \<lparr>Description = None,
      ProviderOverride = ''{default-severity: page, extra-labels: {tier: platinum}}''\<rparr>"

definition sample_fragment :: "(gomap, unit) Config" where
  "sample_fragment =
     \<lparr>URL = [], Timeout = 0, DefaultSeverity = ''page'',
      ExtraLabels = Some [''tier'' \<mapsto> ''platinum''], ExtraAnnotations = None,
      ClientConfig = None\<rparr>"

definition sample_decoder :: "string \<Rightarrow> string + (gomap, unit) Config" where
  "sample_decoder bytes =
     (if bytes = ''{default-severity: page, extra-labels: {tier: platinum}}''
      then Inr sample_fragment else Inl ''yaml: unmarshal errors'')"

definition first_call ::
  "heap \<times> (ref, unit) Config option \<times> error option" where
  "first_call = GetConfig sample_decoder layered_store layered_provider ''prod'' layered_alert"

definition second_call ::
  "heap \<times> (ref, unit) Config option \<times> error option" where
  "second_call =
     GetConfig sample_decoder (fst first_call) layered_provider ''prod'' layered_alert"

section \<open>Properties\<close>

subsection \<open>The loop that copies entries\<close>

lemma fold_assign_restrict:
  "set ks \<subseteq> dom src \<Longrightarrow> fold (\<lambda>k m. m(k := src k)) ks dst = dst ++ (src |` set ks)"
proof (induction ks arbitrary: dst)
  case Nil
  then show ?case by simp
next
  case (Cons k ks)
  then obtain v where v: "src k = Some v" by auto
  from Cons.prems have "set ks \<subseteq> dom src" by simp
  then have "fold (\<lambda>k m. m(k := src k)) ks (dst(k := src k)) = (dst(k := src k)) ++ (src |` set ks)"
    by (rule Cons.IH)
  then have "fold (\<lambda>k m. m(k := src k)) (k # ks) dst = (dst(k := src k)) ++ (src |` set ks)"
    by (simp only: fold_simps)
  also have "\<dots> = dst ++ (src |` set (k # ks))"
    by (rule ext) (auto simp add: map_add_def restrict_map_def v split: option.splits)
  finally show ?case .
qed

text \<open>
  Assigning the entries of \<open>src\<close> one key at a time, in any order \<open>ks\<close> that visits every
  key of \<open>src\<close>, gives \<open>dst ++ src\<close>: the abstraction made in \<open>range_assign\<close>.
\<close>

lemma range_assign_any_order:
  "set ks = dom src \<Longrightarrow> fold (\<lambda>k m. m(k := src k)) ks dst = dst ++ src"
proof -
  assume ks: "set ks = dom src"
  have "src |` dom src = src"
    by (rule ext) (auto simp add: restrict_map_def dom_def)
  with ks fold_assign_restrict [of ks src dst] show ?thesis by simp
qed

subsection \<open>One map block of Merge\<close>

lemma merge_map_absent:
  "\<not> len_pos h src \<Longrightarrow> merge_map h dst src = (h, dst)"
  by (simp add: merge_map_def)

lemma merge_map_Some:
  "len_pos h src \<Longrightarrow>
     merge_map h (Some r) src = (h\<lparr>cells := (cells h)(r := cells h r ++ entries h src)\<rparr>, Some r)"
  by (simp add: merge_map_def range_assign_def)

lemma merge_map_None:
  "len_pos h src \<Longrightarrow> \<forall>s. src = Some s \<longrightarrow> s < next_ref h \<Longrightarrow>
     merge_map h None src =
       (h\<lparr>cells := (cells h)(next_ref h := entries h src), next_ref := Suc (next_ref h)\<rparr>,
        Some (next_ref h))"
  by (cases src) (auto simp add: merge_map_def range_assign_def make_map_def entries_def len_pos_def)

lemma merge_map_next_ref:
  "merge_map h dst src = (h', dst') \<Longrightarrow> next_ref h \<le> next_ref h'"
  by (auto simp add: merge_map_def range_assign_def make_map_def split: if_splits option.splits)

lemma merge_map_frame:
  "merge_map h dst src = (h', dst') \<Longrightarrow> r < next_ref h \<Longrightarrow> dst \<noteq> Some r \<Longrightarrow>
     cells h' r = cells h r"
  by (auto simp add: merge_map_def range_assign_def make_map_def split: if_splits option.splits)

lemma merge_map_field:
  "merge_map h dst src = (h', dst') \<Longrightarrow>
     dst' = (if len_pos h src then Some (case dst of None \<Rightarrow> next_ref h | Some r \<Rightarrow> r) else dst)"
  by (auto simp add: merge_map_def range_assign_def make_map_def split: if_splits option.splits)

lemma merge_map_origin:
  "merge_map h dst src = (h', dst') \<Longrightarrow>
     dst' = dst \<or> (dst = None \<and> dst' = Some (next_ref h) \<and> next_ref h < next_ref h')"
  by (auto simp add: merge_map_def range_assign_def make_map_def split: if_splits option.splits)

lemma merge_map_entries:
  assumes "merge_map h dst src = (h', dst')"
    and "\<forall>s. src = Some s \<longrightarrow> s < next_ref h"
  shows "entries h' dst' = entries h dst ++ entries h src"
proof (cases "len_pos h src")
  case False
  then show ?thesis using assms by (simp add: merge_map_absent len_pos_def)
next
  case True
  show ?thesis
  proof (cases dst)
    case None
    then show ?thesis using assms True merge_map_None [of h src]
      by (auto simp add: entries_def)
  next
    case (Some r)
    then show ?thesis using assms True merge_map_Some [of h src r]
      by (auto simp add: entries_def)
  qed
qed

lemma merge_map_allocated:
  "merge_map h dst src = (h', dst') \<Longrightarrow> \<forall>r. dst = Some r \<longrightarrow> r < next_ref h \<Longrightarrow>
     \<forall>r. dst' = Some r \<longrightarrow> r < next_ref h'"
  by (auto simp add: merge_map_def range_assign_def make_map_def split: if_splits option.splits)

subsection \<open>Merge, address by address\<close>

lemma Merge_steps:
  assumes "Merge h cfg ov = (h', cfg')"
  obtains h1 L' A' where
    "merge_map h (ExtraLabels cfg) (ExtraLabels ov) = (h1, L')"
    "merge_map h1 (ExtraAnnotations cfg) (ExtraAnnotations ov) = (h', A')"
    "ExtraLabels cfg' = L'" "ExtraAnnotations cfg' = A'"
  using assms
  by (auto simp add: Merge_def Let_def split: prod.splits if_splits)

lemma Merge_URL:
  "Merge h cfg ov = (h', cfg') \<Longrightarrow> URL cfg' = (if URL ov \<noteq> [] then URL ov else URL cfg)"
  by (auto simp add: Merge_def Let_def split: prod.splits)

lemma Merge_Timeout:
  "Merge h cfg ov = (h', cfg') \<Longrightarrow>
     Timeout cfg' = (if Timeout ov > 0 then Timeout ov else Timeout cfg)"
  by (auto simp add: Merge_def Let_def split: prod.splits)

lemma Merge_DefaultSeverity:
  "Merge h cfg ov = (h', cfg') \<Longrightarrow>
     DefaultSeverity cfg' =
       (if DefaultSeverity ov \<noteq> [] then DefaultSeverity ov else DefaultSeverity cfg)"
  by (auto simp add: Merge_def Let_def split: prod.splits)

lemma Merge_ClientConfig:
  "Merge h cfg ov = (h', cfg') \<Longrightarrow>
     ClientConfig cfg' = (if ClientConfig ov \<noteq> None then ClientConfig ov else ClientConfig cfg)"
  by (auto simp add: Merge_def Let_def split: prod.splits)

lemma Merge_next_ref:
  assumes "Merge h cfg ov = (h', cfg')"
  shows "next_ref h \<le> next_ref h'"
proof -
  from assms obtain h1 L' A' where
    1: "merge_map h (ExtraLabels cfg) (ExtraLabels ov) = (h1, L')" and
    2: "merge_map h1 (ExtraAnnotations cfg) (ExtraAnnotations ov) = (h', A')"
    by (rule Merge_steps)
  from merge_map_next_ref [OF 1] merge_map_next_ref [OF 2] show ?thesis by simp
qed

lemma Merge_frame:
  assumes "Merge h cfg ov = (h', cfg')" and "r < next_ref h" and "r \<notin> map_refs cfg"
  shows "cells h' r = cells h r"
proof -
  from assms(1) obtain h1 L' A' where
    1: "merge_map h (ExtraLabels cfg) (ExtraLabels ov) = (h1, L')" and
    2: "merge_map h1 (ExtraAnnotations cfg) (ExtraAnnotations ov) = (h', A')"
    by (rule Merge_steps)
  from assms(3) have n: "ExtraLabels cfg \<noteq> Some r" "ExtraAnnotations cfg \<noteq> Some r"
    by (auto simp add: map_refs_def)
  from merge_map_next_ref [OF 1] assms(2) have "r < next_ref h1" by simp
  with merge_map_frame [OF 2 _ n(2)] have "cells h' r = cells h1 r" by simp
  also from merge_map_frame [OF 1 assms(2) n(1)] have "cells h1 r = cells h r" .
  finally show ?thesis .
qed

lemma Merge_labels:
  assumes m: "Merge h cfg ov = (h', cfg')"
    and a: "allocated h cfg"
    and s: "\<forall>s. ExtraLabels ov = Some s \<longrightarrow> s < next_ref h"
    and d: "\<not> same_object (ExtraLabels cfg) (ExtraAnnotations cfg)"
  shows "entries h' (ExtraLabels cfg') =
           entries h (ExtraLabels cfg) ++ entries h (ExtraLabels ov)"
proof -
  from m obtain h1 L' A' where
    1: "merge_map h (ExtraLabels cfg) (ExtraLabels ov) = (h1, L')" and
    2: "merge_map h1 (ExtraAnnotations cfg) (ExtraAnnotations ov) = (h', A')" and
    L: "ExtraLabels cfg' = L'"
    by (rule Merge_steps)
  have e1: "entries h1 L' = entries h (ExtraLabels cfg) ++ entries h (ExtraLabels ov)"
    using 1 s by (rule merge_map_entries)
  have "entries h' L' = entries h1 L'"
  proof (cases L')
    case None
    then show ?thesis by (simp add: entries_def)
  next
    case (Some r)
    from a have aL: "\<forall>r. ExtraLabels cfg = Some r \<longrightarrow> r < next_ref h"
      and aA: "\<forall>r. ExtraAnnotations cfg = Some r \<longrightarrow> r < next_ref h"
      by (auto simp add: allocated_def map_refs_def)
    from merge_map_allocated [OF 1 aL] Some have r1: "r < next_ref h1" by simp
    have "ExtraAnnotations cfg \<noteq> Some r"
      using merge_map_origin [OF 1] Some d aA by (auto simp add: same_object_def)
    from merge_map_frame [OF 2 r1 this] Some show ?thesis by (simp add: entries_def)
  qed
  with e1 L show ?thesis by simp
qed

lemma Merge_annotations:
  assumes m: "Merge h cfg ov = (h', cfg')"
    and a: "allocated h cfg"
    and s: "\<forall>s. ExtraAnnotations ov = Some s \<longrightarrow> s < next_ref h"
    and d: "\<not> same_object (ExtraLabels cfg) (ExtraAnnotations cfg)"
    and d': "\<not> same_object (ExtraLabels cfg) (ExtraAnnotations ov)"
  shows "entries h' (ExtraAnnotations cfg') =
           entries h (ExtraAnnotations cfg) ++ entries h (ExtraAnnotations ov)"
proof -
  from m obtain h1 L' A' where
    1: "merge_map h (ExtraLabels cfg) (ExtraLabels ov) = (h1, L')" and
    2: "merge_map h1 (ExtraAnnotations cfg) (ExtraAnnotations ov) = (h', A')" and
    A: "ExtraAnnotations cfg' = A'"
    by (rule Merge_steps)
  from a have aA: "\<forall>r. ExtraAnnotations cfg = Some r \<longrightarrow> r < next_ref h"
    by (auto simp add: allocated_def map_refs_def)
  have keep: "entries h1 x = entries h x"
    if "\<forall>r. x = Some r \<longrightarrow> r < next_ref h" and "\<not> same_object (ExtraLabels cfg) x" for x
  proof (cases x)
    case None
    then show ?thesis by (simp add: entries_def)
  next
    case (Some r)
    with that have "r < next_ref h" "ExtraLabels cfg \<noteq> Some r"
      by (auto simp add: same_object_def)
    from merge_map_frame [OF 1 this] Some show ?thesis by (simp add: entries_def)
  qed
  from s merge_map_next_ref [OF 1]
  have s1: "\<forall>s. ExtraAnnotations ov = Some s \<longrightarrow> s < next_ref h1" by auto
  have "entries h' A' = entries h1 (ExtraAnnotations cfg) ++ entries h1 (ExtraAnnotations ov)"
    using 2 s1 by (rule merge_map_entries)
  with keep [OF aA d] keep [OF s d'] A show ?thesis by simp
qed

lemma Merge_origin:
  assumes "Merge h cfg ov = (h', cfg')"
  shows "ExtraLabels cfg' = ExtraLabels cfg \<or>
           (ExtraLabels cfg = None \<and>
            (\<exists>r. ExtraLabels cfg' = Some r \<and> next_ref h \<le> r \<and> r < next_ref h'))"
    and "ExtraAnnotations cfg' = ExtraAnnotations cfg \<or>
           (ExtraAnnotations cfg = None \<and>
            (\<exists>r. ExtraAnnotations cfg' = Some r \<and> next_ref h \<le> r \<and> r < next_ref h'))"
proof -
  from assms obtain h1 L' A' where
    1: "merge_map h (ExtraLabels cfg) (ExtraLabels ov) = (h1, L')" and
    2: "merge_map h1 (ExtraAnnotations cfg) (ExtraAnnotations ov) = (h', A')" and
    L: "ExtraLabels cfg' = L'" and A: "ExtraAnnotations cfg' = A'"
    by (rule Merge_steps)
  from merge_map_origin [OF 1] merge_map_next_ref [OF 2] L
  show "ExtraLabels cfg' = ExtraLabels cfg \<or>
           (ExtraLabels cfg = None \<and>
            (\<exists>r. ExtraLabels cfg' = Some r \<and> next_ref h \<le> r \<and> r < next_ref h'))"
    by auto
  from merge_map_origin [OF 2] merge_map_next_ref [OF 1] A
  show "ExtraAnnotations cfg' = ExtraAnnotations cfg \<or>
           (ExtraAnnotations cfg = None \<and>
            (\<exists>r. ExtraAnnotations cfg' = Some r \<and> next_ref h \<le> r \<and> r < next_ref h'))"
    by auto
qed

lemma Merge_separate:
  assumes m: "Merge h cfg ov = (h', cfg')"
    and a: "allocated h cfg"
    and d: "\<not> same_object (ExtraLabels cfg) (ExtraAnnotations cfg)"
  shows "\<not> same_object (ExtraLabels cfg') (ExtraAnnotations cfg')"
proof -
  from m obtain h1 L' A' where
    1: "merge_map h (ExtraLabels cfg) (ExtraLabels ov) = (h1, L')" and
    2: "merge_map h1 (ExtraAnnotations cfg) (ExtraAnnotations ov) = (h', A')" and
    L: "ExtraLabels cfg' = L'" and A: "ExtraAnnotations cfg' = A'"
    by (rule Merge_steps)
  from a have aL: "\<forall>r. ExtraLabels cfg = Some r \<longrightarrow> r < next_ref h"
    and aA: "\<forall>r. ExtraAnnotations cfg = Some r \<longrightarrow> r < next_ref h"
    by (auto simp add: allocated_def map_refs_def)
  from merge_map_origin [OF 1] merge_map_origin [OF 2] merge_map_next_ref [OF 1] aL aA d L A
  show ?thesis
    by (auto simp add: same_object_def)
qed

lemma Merge_allocated:
  assumes m: "Merge h cfg ov = (h', cfg')" and a: "allocated h cfg"
  shows "allocated h' cfg'"
  using Merge_origin [OF m] Merge_next_ref [OF m] a
  by (fastforce simp add: allocated_def map_refs_def)

lemma Merge_not_override's_object:
  assumes m: "Merge h cfg ov = (h', cfg')"
    and s: "\<forall>s. ExtraLabels ov = Some s \<longrightarrow> s < next_ref h"
    and d: "\<not> same_object (ExtraLabels cfg) (ExtraLabels ov)"
  shows "\<not> same_object (ExtraLabels cfg') (ExtraLabels ov)"
  using Merge_origin(1) [OF m] s d by (auto simp add: same_object_def)

section \<open>The claims of the specification\<close>

subsection \<open>Validate\<close>

text \<open>
  Claim C4. \<open>Validate\<close> on a \<open>Config\<close> with an empty URL fails with the configuration
  error \<open>ErrAlertmanagerURLNotSet\<close>. On a \<open>Config\<close> with a non-empty URL it succeeds, the
  Timeout afterwards is 10 seconds if it was zero and what it was otherwise, and the
  DefaultSeverity afterwards is \<open>critical\<close> if it was empty and what it was otherwise.
\<close>

theorem Validate_url_and_defaults:
  "(URL cfg = [] \<longrightarrow> snd (Validate cfg) = Some ErrAlertmanagerURLNotSet) \<and>
   (URL cfg \<noteq> [] \<longrightarrow>
      snd (Validate cfg) = None \<and>
      Timeout (fst (Validate cfg)) = (if Timeout cfg = 0 then 10 * Second else Timeout cfg) \<and>
      DefaultSeverity (fst (Validate cfg)) =
        (if DefaultSeverity cfg = [] then ''critical'' else DefaultSeverity cfg))"
  by (simp add: Validate_def Let_def)

theorem Validate_url_and_defaults_witness:
  "snd (Validate (\<lparr>URL = [], Timeout = 0, DefaultSeverity = [], ExtraLabels = None,
          ExtraAnnotations = None, ClientConfig = None\<rparr> :: (ref, unit) Config))
     = Some ErrAlertmanagerURLNotSet \<and>
   snd (Validate (\<lparr>URL = ''http://am:9093'', Timeout = 0, DefaultSeverity = [],
          ExtraLabels = None, ExtraAnnotations = None, ClientConfig = None\<rparr> :: (ref, unit) Config))
     = None \<and>
   Timeout (fst (Validate (\<lparr>URL = ''http://am:9093'', Timeout = 0, DefaultSeverity = [],
          ExtraLabels = None, ExtraAnnotations = None, ClientConfig = None\<rparr> :: (ref, unit) Config)))
     = 10000000000 \<and>
   DefaultSeverity (fst (Validate (\<lparr>URL = ''http://am:9093'', Timeout = 5, DefaultSeverity = ''warning'',
          ExtraLabels = None, ExtraAnnotations = None, ClientConfig = None\<rparr> :: (ref, unit) Config)))
     = ''warning''"
  using
    Validate_url_and_defaults [of "\<lparr>URL = [], Timeout = 0, DefaultSeverity = [], ExtraLabels = None,
          ExtraAnnotations = None, ClientConfig = None\<rparr> :: (ref, unit) Config"]
    Validate_url_and_defaults [of "\<lparr>URL = ''http://am:9093'', Timeout = 0, DefaultSeverity = [],
          ExtraLabels = None, ExtraAnnotations = None, ClientConfig = None\<rparr> :: (ref, unit) Config"]
    Validate_url_and_defaults [of "\<lparr>URL = ''http://am:9093'', Timeout = 5, DefaultSeverity = ''warning'',
          ExtraLabels = None, ExtraAnnotations = None, ClientConfig = None\<rparr> :: (ref, unit) Config"]
  by (simp add: Second_def)

subsection \<open>Merge\<close>

lemma Merge_test: "Merge test_store test_base test_override = (test_merged_store, test_merged)"
  by (simp add: Merge_def merge_map_def len_pos_def entries_def range_assign_def make_map_def
      test_store_def test_base_def test_override_def test_merged_store_def test_merged_def
      fun_upd_twist)

text \<open>
  Claim C6, as amended. \<open>Merge\<close> replaces the receiver's URL and DefaultSeverity by the
  override's exactly when the override's string is non-empty, the receiver's Timeout
  exactly when the override's Timeout is strictly positive (a zero or a negative override
  Timeout leaves it as it was), and the receiver's ClientConfig exactly when the
  override's pointer is not nil. For the two maps, where the receiver's ExtraLabels is a
  map object other than the receiver's ExtraAnnotations and the override's
  ExtraAnnotations: an override map with no entry (nil or empty) leaves the receiver's
  field and its entries as they were, and an override map with an entry has its entries
  stored over the receiver's.
\<close>

theorem Merge_replaces_present_fields:
  assumes "Merge h cfg ov = (h', cfg')"
  shows
    "URL cfg' = (if URL ov \<noteq> [] then URL ov else URL cfg) \<and>
     DefaultSeverity cfg' =
       (if DefaultSeverity ov \<noteq> [] then DefaultSeverity ov else DefaultSeverity cfg) \<and>
     Timeout cfg' = (if 0 < Timeout ov then Timeout ov else Timeout cfg) \<and>
     ClientConfig cfg' = (if ClientConfig ov \<noteq> None then ClientConfig ov else ClientConfig cfg) \<and>
     (allocated h cfg \<and> allocated h ov \<and>
      \<not> same_object (ExtraLabels cfg) (ExtraAnnotations cfg) \<and>
      \<not> same_object (ExtraLabels cfg) (ExtraAnnotations ov) \<longrightarrow>
        (if len_pos h (ExtraLabels ov)
         then entries h' (ExtraLabels cfg') =
                entries h (ExtraLabels cfg) ++ entries h (ExtraLabels ov)
         else ExtraLabels cfg' = ExtraLabels cfg \<and>
              entries h' (ExtraLabels cfg') = entries h (ExtraLabels cfg)) \<and>
        (if len_pos h (ExtraAnnotations ov)
         then entries h' (ExtraAnnotations cfg') =
                entries h (ExtraAnnotations cfg) ++ entries h (ExtraAnnotations ov)
         else ExtraAnnotations cfg' = ExtraAnnotations cfg \<and>
              entries h' (ExtraAnnotations cfg') = entries h (ExtraAnnotations cfg)))"
proof -
  have maps: "(if len_pos h (ExtraLabels ov)
         then entries h' (ExtraLabels cfg') =
                entries h (ExtraLabels cfg) ++ entries h (ExtraLabels ov)
         else ExtraLabels cfg' = ExtraLabels cfg \<and>
              entries h' (ExtraLabels cfg') = entries h (ExtraLabels cfg)) \<and>
        (if len_pos h (ExtraAnnotations ov)
         then entries h' (ExtraAnnotations cfg') =
                entries h (ExtraAnnotations cfg) ++ entries h (ExtraAnnotations ov)
         else ExtraAnnotations cfg' = ExtraAnnotations cfg \<and>
              entries h' (ExtraAnnotations cfg') = entries h (ExtraAnnotations cfg))"
    if a: "allocated h cfg" and b: "allocated h ov"
      and d: "\<not> same_object (ExtraLabels cfg) (ExtraAnnotations cfg)"
      and d': "\<not> same_object (ExtraLabels cfg) (ExtraAnnotations ov)"
  proof -
    from assms obtain h1 L' A' where
      1: "merge_map h (ExtraLabels cfg) (ExtraLabels ov) = (h1, L')" and
      2: "merge_map h1 (ExtraAnnotations cfg) (ExtraAnnotations ov) = (h', A')" and
      L: "ExtraLabels cfg' = L'" and A: "ExtraAnnotations cfg' = A'"
      by (rule Merge_steps)
    from b have bL: "\<forall>s. ExtraLabels ov = Some s \<longrightarrow> s < next_ref h"
      and bA: "\<forall>s. ExtraAnnotations ov = Some s \<longrightarrow> s < next_ref h"
      by (auto simp add: allocated_def map_refs_def)
    have eL: "entries h' (ExtraLabels cfg') =
                entries h (ExtraLabels cfg) ++ entries h (ExtraLabels ov)"
      using assms a bL d by (rule Merge_labels)
    have eA: "entries h' (ExtraAnnotations cfg') =
                entries h (ExtraAnnotations cfg) ++ entries h (ExtraAnnotations ov)"
      using assms a bA d d' by (rule Merge_annotations)
    have fL: "\<not> len_pos h (ExtraLabels ov) \<Longrightarrow> ExtraLabels cfg' = ExtraLabels cfg"
      using merge_map_field [OF 1] L by simp
    have "entries h1 (ExtraAnnotations ov) = entries h (ExtraAnnotations ov)"
    proof (cases "ExtraAnnotations ov")
      case None
      then show ?thesis by (simp add: entries_def)
    next
      case (Some r)
      with bA d' have "r < next_ref h" "ExtraLabels cfg \<noteq> Some r"
        by (auto simp add: same_object_def)
      from merge_map_frame [OF 1 this] Some show ?thesis by (simp add: entries_def)
    qed
    then have "len_pos h1 (ExtraAnnotations ov) = len_pos h (ExtraAnnotations ov)"
      by (simp add: len_pos_def)
    with merge_map_field [OF 2] A
    have fA: "\<not> len_pos h (ExtraAnnotations ov) \<Longrightarrow> ExtraAnnotations cfg' = ExtraAnnotations cfg"
      by simp
    have cL: "\<not> len_pos h (ExtraLabels ov) \<Longrightarrow>
                entries h' (ExtraLabels cfg') = entries h (ExtraLabels cfg)"
      using eL by (simp add: len_pos_def)
    have cA: "\<not> len_pos h (ExtraAnnotations ov) \<Longrightarrow>
                entries h' (ExtraAnnotations cfg') = entries h (ExtraAnnotations cfg)"
      using eA by (simp add: len_pos_def)
    from eL fL cL have "if len_pos h (ExtraLabels ov)
         then entries h' (ExtraLabels cfg') =
                entries h (ExtraLabels cfg) ++ entries h (ExtraLabels ov)
         else ExtraLabels cfg' = ExtraLabels cfg \<and>
              entries h' (ExtraLabels cfg') = entries h (ExtraLabels cfg)"
      by (cases "len_pos h (ExtraLabels ov)") (simp_all only: if_True if_False simp_thms)
    moreover from eA fA cA have "if len_pos h (ExtraAnnotations ov)
         then entries h' (ExtraAnnotations cfg') =
                entries h (ExtraAnnotations cfg) ++ entries h (ExtraAnnotations ov)
         else ExtraAnnotations cfg' = ExtraAnnotations cfg \<and>
              entries h' (ExtraAnnotations cfg') = entries h (ExtraAnnotations cfg)"
      by (cases "len_pos h (ExtraAnnotations ov)") (simp_all only: if_True if_False simp_thms)
    ultimately show ?thesis by (rule conjI)
  qed
  from Merge_URL [OF assms] Merge_DefaultSeverity [OF assms] Merge_Timeout [OF assms]
    Merge_ClientConfig [OF assms] maps
  show ?thesis by blast
qed

theorem Merge_replaces_present_fields_witness:
  "URL test_merged = ''http://base:9093'' \<and>
   DefaultSeverity test_merged = ''warning'' \<and>
   Timeout test_merged = 0 \<and>
   ClientConfig test_merged = None \<and>
   entries test_merged_store (ExtraLabels test_merged) =
     [''team'' \<mapsto> ''platform'', ''environment'' \<mapsto> ''test''] \<and>
   entries test_merged_store (ExtraAnnotations test_merged) =
     [''runbook'' \<mapsto> ''https://wiki.example.com'']"
  using Merge_replaces_present_fields [OF Merge_test]
  by (simp add: allocated_def map_refs_def same_object_def len_pos_def entries_def
      test_store_def test_base_def test_override_def)

text \<open>
  The claim as written lets a negative override Timeout replace the receiver's: merging
  an override of -1 nanosecond leaves a receiver's Timeout of 5 seconds in place.
\<close>

theorem Merge_timeout_counterexample:
  "Timeout (\<lparr>URL = [], Timeout = - 1, DefaultSeverity = [], ExtraLabels = None,
             ExtraAnnotations = None, ClientConfig = None\<rparr> :: (ref, unit) Config) \<noteq> 0 \<and>
   Timeout (snd (Merge \<lparr>cells = (\<lambda>_. Map.empty), next_ref = 0\<rparr>
      (\<lparr>URL = ''http://base:9093'', Timeout = 5 * Second, DefaultSeverity = ''critical'',
        ExtraLabels = None, ExtraAnnotations = None, ClientConfig = None\<rparr> :: (ref, unit) Config)
      \<lparr>URL = [], Timeout = - 1, DefaultSeverity = [], ExtraLabels = None,
        ExtraAnnotations = None, ClientConfig = None\<rparr>)) = 5 * Second"
  by (simp add: Merge_def merge_map_def len_pos_def entries_def)


text \<open>
  Claim C3, as amended. \<open>B.Merge(O)\<close> leaves \<open>B.URL\<close> unchanged when \<open>O.URL\<close> is empty
  and replaces it by \<open>O.URL\<close> otherwise. When \<open>B.ExtraLabels\<close> and \<open>B.ExtraAnnotations\<close>
  are not one map object, the keys of \<open>B.ExtraLabels\<close> afterwards are the keys of the two
  label maps and every key of \<open>O\<close>'s has \<open>O\<close>'s value. The map object in \<open>B.ExtraLabels\<close>
  afterwards is the one that was there before or, if the field was nil, one made during
  the call: it is the object referenced by \<open>O\<close> only if it already was before the call.
\<close>

theorem Merge_url_labels_objects:
  assumes m: "Merge h B O' = (h', B')"
  shows
    "URL B' = (if URL O' = [] then URL B else URL O') \<and>
     (allocated h B \<and> allocated h O' \<and>
      \<not> same_object (ExtraLabels B) (ExtraAnnotations B) \<longrightarrow>
        dom (entries h' (ExtraLabels B')) =
          dom (entries h (ExtraLabels B)) \<union> dom (entries h (ExtraLabels O')) \<and>
        (\<forall>k. entries h' (ExtraLabels B') k =
           (case entries h (ExtraLabels O') k of
              Some v \<Rightarrow> Some v
            | None \<Rightarrow> entries h (ExtraLabels B) k))) \<and>
     (ExtraLabels B' = ExtraLabels B \<or>
        ExtraLabels B = None \<and> (\<exists>r \<ge> next_ref h. ExtraLabels B' = Some r)) \<and>
     (allocated h O' \<and> \<not> same_object (ExtraLabels B) (ExtraLabels O') \<longrightarrow>
        \<not> same_object (ExtraLabels B') (ExtraLabels O'))"
proof -
  have u: "URL B' = (if URL O' = [] then URL B else URL O')"
    using Merge_URL [OF m] by simp
  have l: "dom (entries h' (ExtraLabels B')) =
          dom (entries h (ExtraLabels B)) \<union> dom (entries h (ExtraLabels O')) \<and>
        (\<forall>k. entries h' (ExtraLabels B') k =
           (case entries h (ExtraLabels O') k of
              Some v \<Rightarrow> Some v
            | None \<Rightarrow> entries h (ExtraLabels B) k))"
    if "allocated h B" "allocated h O'" "\<not> same_object (ExtraLabels B) (ExtraAnnotations B)"
  proof -
    from that(2) have "\<forall>s. ExtraLabels O' = Some s \<longrightarrow> s < next_ref h"
      by (auto simp add: allocated_def map_refs_def)
    with m that(1) have "entries h' (ExtraLabels B') =
        entries h (ExtraLabels B) ++ entries h (ExtraLabels O')"
      using that(3) by (rule Merge_labels)
    then show ?thesis
      by (auto simp add: map_add_def split: option.splits)
  qed
  have o: "ExtraLabels B' = ExtraLabels B \<or>
        ExtraLabels B = None \<and> (\<exists>r \<ge> next_ref h. ExtraLabels B' = Some r)"
    using Merge_origin(1) [OF m] by auto
  have n: "\<not> same_object (ExtraLabels B') (ExtraLabels O')"
    if "allocated h O'" "\<not> same_object (ExtraLabels B) (ExtraLabels O')"
  proof -
    from that(1) have "\<forall>s. ExtraLabels O' = Some s \<longrightarrow> s < next_ref h"
      by (auto simp add: allocated_def map_refs_def)
    with m show ?thesis using that(2) by (rule Merge_not_override's_object)
  qed
  from u l o n show ?thesis by blast
qed

theorem Merge_url_labels_objects_witness:
  "URL test_merged = ''http://base:9093'' \<and>
   dom (entries test_merged_store (ExtraLabels test_merged)) = {''team'', ''environment''} \<and>
   entries test_merged_store (ExtraLabels test_merged) ''team'' = Some ''platform'' \<and>
   entries test_merged_store (ExtraLabels test_merged) ''environment'' = Some ''test'' \<and>
   ExtraLabels test_merged = ExtraLabels test_base \<and>
   \<not> same_object (ExtraLabels test_merged) (ExtraLabels test_override)"
proof -
  note t = Merge_url_labels_objects [OF Merge_test]
  have a: "allocated test_store test_base" "allocated test_store test_override"
    by (simp_all add: allocated_def map_refs_def test_store_def test_base_def test_override_def)
  have d: "\<not> same_object (ExtraLabels test_base) (ExtraAnnotations test_base)"
    "\<not> same_object (ExtraLabels test_base) (ExtraLabels test_override)"
    by (simp_all add: same_object_def test_base_def test_override_def)
  have e: "entries test_store (ExtraLabels test_base) = [''team'' \<mapsto> ''platform'']"
    "entries test_store (ExtraLabels test_override) = [''environment'' \<mapsto> ''test'']"
    by (simp_all add: entries_def test_store_def test_base_def test_override_def)
  from t have "URL test_merged = (if URL test_override = [] then URL test_base else URL test_override)"
    by (rule conjunct1)
  then have 1: "URL test_merged = ''http://base:9093''"
    by (simp add: test_base_def test_override_def)
  from t a d(1) have l: "dom (entries test_merged_store (ExtraLabels test_merged)) =
          dom (entries test_store (ExtraLabels test_base)) \<union>
          dom (entries test_store (ExtraLabels test_override)) \<and>
        (\<forall>k. entries test_merged_store (ExtraLabels test_merged) k =
           (case entries test_store (ExtraLabels test_override) k of
              Some v \<Rightarrow> Some v
            | None \<Rightarrow> entries test_store (ExtraLabels test_base) k))"
    by blast
  from l have 2: "dom (entries test_merged_store (ExtraLabels test_merged)) = {''team'', ''environment''}"
    by (simp add: e insert_commute)
  from l have 3: "entries test_merged_store (ExtraLabels test_merged) ''team'' = Some ''platform''"
    "entries test_merged_store (ExtraLabels test_merged) ''environment'' = Some ''test''"
    by (simp_all add: e)
  from t have "ExtraLabels test_merged = ExtraLabels test_base \<or>
        ExtraLabels test_base = None \<and> (\<exists>r \<ge> next_ref test_store. ExtraLabels test_merged = Some r)"
    by blast
  then have 4: "ExtraLabels test_merged = ExtraLabels test_base"
    by (simp add: test_base_def)
  from t a(2) d(2) have 5: "\<not> same_object (ExtraLabels test_merged) (ExtraLabels test_override)"
    by blast
  from 1 2 3 4 5 show ?thesis by blast
qed

text \<open>
  The claim as written says "never": when \<open>O\<close> is a shallow copy of \<open>B\<close>, as the local
  \<open>cfg\<close> of \<open>GetConfig\<close> is of the stored default before its maps are copied, the
  object in \<open>B.ExtraLabels\<close> after the merge is the object referenced by \<open>O\<close>. And when
  the two map fields of \<open>B\<close> hold one object, an annotation of \<open>O\<close> ends up among the
  labels of \<open>B\<close>, a key of neither label map.
\<close>

theorem Merge_shared_object_counterexample:
  "allocated shared_store shared_config \<and>
   same_object (ExtraLabels (snd (Merge shared_store shared_config shared_config)))
     (ExtraLabels shared_config) \<and>
   allocated twin_store twin_config \<and> allocated twin_store twin_override \<and>
   entries (fst (Merge twin_store twin_config twin_override))
     (ExtraLabels (snd (Merge twin_store twin_config twin_override))) ''runbook'' =
     Some ''https://wiki.example.com'' \<and>
   ''runbook'' \<notin> dom (entries twin_store (ExtraLabels twin_config)) \<union>
                  dom (entries twin_store (ExtraLabels twin_override))"
  by (simp add: Merge_def merge_map_def len_pos_def entries_def range_assign_def
      shared_store_def shared_config_def same_object_def allocated_def map_refs_def
      twin_store_def twin_config_def twin_override_def)

subsection \<open>buildAlert\<close>

lemma Join_Cons: "Join (x # xs) sep = x @ concat (map (\<lambda>y. sep @ y) xs)"
  by (induction xs arbitrary: x) simp_all

text \<open>
  Claim C5, as amended. With \<open>resolved = false\<close> the payload of \<open>buildAlert\<close> has the zero
  timestamp as EndsAt; its annotation \<open>summary\<close> is "Endpoint <name> is down" and its
  annotation \<open>description\<close> is "Endpoint <name> (<url>) has failed health checks",
  extended with ". Errors: " and the error strings joined by ", " exactly when the check
  result carries an error, unless the ExtraAnnotations of the configuration have an entry
  for that key, which is then the annotation. With \<open>resolved = true\<close> EndsAt and StartsAt
  are the same instant, the current time, and the annotation \<open>summary\<close> is
  "Endpoint <name> is now healthy", again unless the ExtraAnnotations have an entry for
  \<open>summary\<close>.
\<close>

theorem buildAlert_firing_and_resolved:
  "EndsAt (buildAlert h now cfg ep alert result False) = zero_Time \<and>
   Annotations (buildAlert h now cfg ep alert result False) ''summary'' =
     (case entries h (ExtraAnnotations cfg) ''summary'' of
        Some v \<Rightarrow> Some v
      | None \<Rightarrow> Some (''Endpoint '' @ ep_Name ep @ '' is down'')) \<and>
   Annotations (buildAlert h now cfg ep alert result False) ''description'' =
     (case entries h (ExtraAnnotations cfg) ''description'' of
        Some v \<Rightarrow> Some v
      | None \<Rightarrow>
          Some (''Endpoint '' @ ep_Name ep @ '' ('' @ ep_URL ep @ '') has failed health checks''
                @ (if res_Errors result = [] then []
                   else ''. Errors: '' @ Join (res_Errors result) '', ''))) \<and>
   StartsAt (buildAlert h now cfg ep alert result True) = now \<and>
   EndsAt (buildAlert h now cfg ep alert result True) = now \<and>
   Annotations (buildAlert h now cfg ep alert result True) ''summary'' =
     (case entries h (ExtraAnnotations cfg) ''summary'' of
        Some v \<Rightarrow> Some v
      | None \<Rightarrow> Some (''Endpoint '' @ ep_Name ep @ '' is now healthy''))"
  by (simp add: buildAlert_def Let_def map_add_def split: option.splits)

theorem buildAlert_firing_and_resolved_witness:
  "EndsAt (buildAlert buildAlert_test_store 1000 buildAlert_test_config buildAlert_test_endpoint
      buildAlert_test_alert buildAlert_test_result False) = zero_Time \<and>
   Annotations (buildAlert buildAlert_test_store 1000 buildAlert_test_config
      buildAlert_test_endpoint buildAlert_test_alert buildAlert_test_result False) ''summary'' =
     Some ''Endpoint Test API is down'' \<and>
   Annotations (buildAlert buildAlert_test_store 1000 buildAlert_test_config
      buildAlert_test_endpoint buildAlert_test_alert buildAlert_test_result False) ''description'' =
     Some ''Endpoint Test API (https://api.example.com/health) has failed health checks. Errors: connection timeout, DNS resolution failed'' \<and>
   Annotations (buildAlert buildAlert_test_store 1000 buildAlert_test_config
      buildAlert_test_endpoint buildAlert_test_alert scenario_result False) ''description'' =
     Some ''Endpoint Test API (https://api.example.com/health) has failed health checks'' \<and>
   EndsAt (buildAlert buildAlert_test_store 1000 buildAlert_test_config buildAlert_test_endpoint
      buildAlert_test_alert buildAlert_test_result True) = 1000 \<and>
   StartsAt (buildAlert buildAlert_test_store 1000 buildAlert_test_config buildAlert_test_endpoint
      buildAlert_test_alert buildAlert_test_result True) = 1000 \<and>
   Annotations (buildAlert buildAlert_test_store 1000 buildAlert_test_config
      buildAlert_test_endpoint buildAlert_test_alert buildAlert_test_result True) ''summary'' =
     Some ''Endpoint Test API is now healthy''"
proof -
  have e: "entries buildAlert_test_store (ExtraAnnotations buildAlert_test_config) =
      [''runbook'' \<mapsto> ''https://wiki.example.com/runbook'']"
    by (simp add: entries_def buildAlert_test_store_def buildAlert_test_config_def)
  have n: "ep_Name buildAlert_test_endpoint = ''Test API''"
    "ep_URL buildAlert_test_endpoint = ''https://api.example.com/health''"
    "res_Errors buildAlert_test_result = [''connection timeout'', ''DNS resolution failed'']"
    "res_Errors scenario_result = []"
    by (simp_all add: buildAlert_test_endpoint_def buildAlert_test_result_def scenario_result_def)
  from buildAlert_firing_and_resolved [of buildAlert_test_store 1000 buildAlert_test_config
      buildAlert_test_endpoint buildAlert_test_alert buildAlert_test_result]
    buildAlert_firing_and_resolved [of buildAlert_test_store 1000 buildAlert_test_config
      buildAlert_test_endpoint buildAlert_test_alert scenario_result]
  show ?thesis by (simp add: e n)
qed

text \<open>
  The claim as written holds "for every input": the extra annotations are stored last, so
  an entry for \<open>summary\<close> among them is the annotation of the payload.
\<close>

theorem buildAlert_summary_counterexample:
  "Annotations (buildAlert summary_store 1000 summary_config scenario_endpoint plain_alert
      scenario_result False) ''summary'' = Some ''API outage, see the runbook'' \<and>
   Annotations (buildAlert summary_store 1000 summary_config scenario_endpoint plain_alert
      scenario_result False) ''summary'' \<noteq>
     Some (''Endpoint '' @ ep_Name scenario_endpoint @ '' is down'')"
  by (simp add: buildAlert_def Let_def entries_def summary_store_def summary_config_def
      scenario_endpoint_def plain_alert_def scenario_result_def GetDescription_def)

text \<open>
  Claim C2. For the provider with the URL \<open>http://am:9093\<close> and no overrides, the endpoint
  \<open>API\<close> with the URL \<open>https://api/health\<close> and the group \<open>prod\<close>, \<open>resolved = false\<close> and
  an empty error list, \<open>GetConfig\<close> succeeds and \<open>buildAlert\<close> on its result yields exactly
  the six labels and the two annotations of the scenario. The alert of the scenario
  carries no override and no description.
\<close>

theorem scenario_payload:
  assumes "ProviderOverride alert = []" and "GetDescription alert = []"
  shows "\<exists>h' cfg.
     GetConfig decode h scenario_provider (ep_Group scenario_endpoint) alert = (h', Some cfg, None) \<and>
     Labels (buildAlert h' now cfg scenario_endpoint alert scenario_result False) =
       [''alertname'' \<mapsto> ''GatusEndpointDown'', ''instance'' \<mapsto> ''https://api/health'',
        ''job'' \<mapsto> ''gatus'', ''severity'' \<mapsto> ''critical'', ''endpoint'' \<mapsto> ''API'',
        ''group'' \<mapsto> ''prod''] \<and>
     Annotations (buildAlert h' now cfg scenario_endpoint alert scenario_result False) =
       [''summary'' \<mapsto> ''Endpoint API is down'',
        ''description'' \<mapsto> ''Endpoint API (https://api/health) has failed health checks'']"
  using assms
  by (simp add: GetConfig_def copy_map_def Validate_def buildAlert_def Let_def entries_def
      scenario_provider_def scenario_endpoint_def scenario_result_def)


theorem scenario_payload_witness:
  "\<exists>h' cfg.
     GetConfig no_decoder empty_store scenario_provider ''prod'' plain_alert = (h', Some cfg, None) \<and>
     Labels (buildAlert h' 1000 cfg scenario_endpoint plain_alert scenario_result False) =
       [''alertname'' \<mapsto> ''GatusEndpointDown'', ''instance'' \<mapsto> ''https://api/health'',
        ''job'' \<mapsto> ''gatus'', ''severity'' \<mapsto> ''critical'', ''endpoint'' \<mapsto> ''API'',
        ''group'' \<mapsto> ''prod''] \<and>
     Annotations (buildAlert h' 1000 cfg scenario_endpoint plain_alert scenario_result False) =
       [''summary'' \<mapsto> ''Endpoint API is down'',
        ''description'' \<mapsto> ''Endpoint API (https://api/health) has failed health checks'']"
proof -
  have "ProviderOverride plain_alert = []" "GetDescription plain_alert = []"
    by (simp_all add: plain_alert_def GetDescription_def)
  from scenario_payload [OF this, of no_decoder empty_store 1000]
  show ?thesis by (simp add: scenario_endpoint_def)
qed


subsection \<open>Delivery\<close>

lemma HasSuffix_suffix: "HasSuffix s suf \<longleftrightarrow> suffix suf s"
proof
  assume "HasSuffix s suf"
  then have "drop (length s - length suf) s = suf" by (simp add: HasSuffix_def)
  then show "suffix suf s" by (metis suffix_drop)
next
  assume "suffix suf s"
  then obtain p where "s = p @ suf" by (auto simp add: suffix_def)
  then show "HasSuffix s suf" by (simp add: HasSuffix_def)
qed

lemma TrimSuffix_slash: "TrimSuffix s ''/'' = (if suffix ''/'' s then butlast s else s)"
  by (simp add: TrimSuffix_def HasSuffix_suffix butlast_conv_take)

lemma target_url:
  "(let url = TrimSuffix u ''/'';
        url = (if \<not> HasSuffix url ''/api/v2/alerts'' then url @ ''/api/v2/alerts'' else url)
    in url) = delivery_target u"
  by (simp add: delivery_target_def Let_def TrimSuffix_slash HasSuffix_suffix)

lemma sendToAlertmanager_request:
  assumes "json_Marshal net alerts = Inr payload"
    and "url_Parse net (delivery_target (URL cfg)) = None"
  shows "sendToAlertmanager net cfg alerts =
     (case Do net (configured_client net cfg) (posted_request (delivery_target (URL cfg)) payload) of
        Inl err \<Rightarrow> Some (ErrSendRequest err)
      | Inr resp \<Rightarrow>
          if StatusCode resp < 200 \<or> 300 \<le> StatusCode resp
          then Some (ErrStatus (StatusCode resp) (resp_Body resp)) else None)"
proof -
  have c: "(if 0 < Timeout cfg
        then \<lparr>made_by_factory = GetHTTPClient net (ClientConfig cfg), client_Timeout = None\<rparr>
               \<lparr>client_Timeout := Some (Timeout cfg)\<rparr>
        else \<lparr>made_by_factory = GetHTTPClient net (ClientConfig cfg), client_Timeout = None\<rparr>)
      = configured_client net cfg"
    by (simp add: configured_client_def)
  show ?thesis
    using assms target_url [of "URL cfg"]
    by (simp add: sendToAlertmanager_def http_NewRequest_def Let_def posted_request_def c)
qed

lemma delivery_target_has_path:
  "delivery_target (base @ ''/api/v2/alerts'') = base @ ''/api/v2/alerts''"
  by (simp add: delivery_target_def Let_def suffix_def)

lemma delivery_target_has_path_slash:
  "delivery_target (base @ ''/api/v2/alerts/'') = base @ ''/api/v2/alerts''"
proof -
  have "base @ ''/api/v2/alerts/'' = (base @ ''/api/v2/alerts'') @ ''/''" by simp
  then have "suffix ''/'' (base @ ''/api/v2/alerts/'')"
    and "butlast (base @ ''/api/v2/alerts/'') = base @ ''/api/v2/alerts''"
    by (simp_all add: suffix_def butlast_append)
  then show ?thesis by (simp add: delivery_target_def Let_def suffix_def)
qed

lemma GetConfig_pointer_or_error:
  "GetConfig decode h provider grp alert = (h', None, err) \<Longrightarrow> err \<noteq> None"
  by (auto simp add: GetConfig_def Let_def split: prod.splits if_splits sum.splits)

lemma GetConfig_scenario:
  "GetConfig no_decoder empty_store scenario_provider ''prod'' plain_alert =
     (empty_store, Some scenario_config, None)"
  by (simp add: GetConfig_def copy_map_def Validate_def Let_def scenario_provider_def
      plain_alert_def scenario_config_def)

text \<open>
  Claim C9. When the payload encodes and the URL is accepted, \<open>sendToAlertmanager\<close> asks
  the network for one request, at the delivery target of the configured URL: the URL
  without one trailing slash, followed by \<^verbatim>\<open>/api/v2/alerts\<close> unless it ends with that
  already. A URL that ends with \<^verbatim>\<open>/api/v2/alerts\<close> or with \<^verbatim>\<open>/api/v2/alerts/\<close> does not
  get the suffix a second time.
\<close>

theorem delivery_target_of_configured_url:
  "(json_Marshal net alerts = Inr payload \<and> url_Parse net (delivery_target (URL cfg)) = None \<longrightarrow>
      sendToAlertmanager net cfg alerts =
        (case Do net (configured_client net cfg)
                (posted_request (delivery_target (URL cfg)) payload) of
           Inl err \<Rightarrow> Some (ErrSendRequest err)
         | Inr resp \<Rightarrow>
             if StatusCode resp < 200 \<or> 300 \<le> StatusCode resp
             then Some (ErrStatus (StatusCode resp) (resp_Body resp)) else None)) \<and>
   delivery_target (base @ ''/api/v2/alerts'') = base @ ''/api/v2/alerts'' \<and>
   delivery_target (base @ ''/api/v2/alerts/'') = base @ ''/api/v2/alerts''"
  using sendToAlertmanager_request [of net alerts payload cfg]
    delivery_target_has_path [of base] delivery_target_has_path_slash [of base]
  by blast

theorem delivery_target_of_configured_url_witness:
  "sendToAlertmanager echo_network (config_at ''http://am:9093'') [] =
     Some (ErrSendRequest ''http://am:9093/api/v2/alerts'') \<and>
   sendToAlertmanager echo_network (config_at ''http://am:9093/'') [] =
     Some (ErrSendRequest ''http://am:9093/api/v2/alerts'') \<and>
   sendToAlertmanager echo_network (config_at ''http://am:9093//'') [] =
     Some (ErrSendRequest ''http://am:9093//api/v2/alerts'') \<and>
   sendToAlertmanager echo_network (config_at ''http://am:9093/api/v2/alerts'') [] =
     Some (ErrSendRequest ''http://am:9093/api/v2/alerts'') \<and>
   sendToAlertmanager echo_network (config_at ''http://am:9093/api/v2/alerts/'') [] =
     Some (ErrSendRequest ''http://am:9093/api/v2/alerts'')"
proof -
  have m: "json_Marshal echo_network [] = Inr ''[{}]''" "url_Parse echo_network u = None" for u
    by (simp_all add: echo_network_def)
  have d: "Do echo_network c (posted_request u p) = Inl u" for c u p
    by (simp add: echo_network_def posted_request_def)
  have t: "delivery_target ''http://am:9093'' = ''http://am:9093/api/v2/alerts''"
    "delivery_target ''http://am:9093/'' = ''http://am:9093/api/v2/alerts''"
    "delivery_target ''http://am:9093//'' = ''http://am:9093//api/v2/alerts''"
    by (simp_all add: delivery_target_def Let_def suffix_def)
  have u: "URL (config_at x) = x" for x by (simp add: config_at_def)
  have s: "sendToAlertmanager echo_network (config_at x) [] =
      Some (ErrSendRequest (delivery_target x))" for x
    using delivery_target_of_configured_url [of echo_network "[]" "''[{}]''" "config_at x"] m d u
    by simp
  have p: "delivery_target ''http://am:9093/api/v2/alerts'' = ''http://am:9093/api/v2/alerts''"
    "delivery_target ''http://am:9093/api/v2/alerts/'' = ''http://am:9093/api/v2/alerts''"
    using delivery_target_of_configured_url [of echo_network "[]" "''[{}]''" "config_at []" "''http://am:9093''"]
    by simp_all
  show ?thesis by (simp add: s t p)
qed


text \<open>
  Claim C8. For the response that the network gives to the request of
  \<open>sendToAlertmanager\<close>: a status code outside [200,300) makes \<open>sendToAlertmanager\<close>, and
  \<open>Send\<close> through it, return an error that carries the status code and the body of the
  response (its message prints both), and a status code in [200,300) makes them return
  no error.
\<close>

theorem status_classification:
  assumes "json_Marshal net alerts = Inr payload"
    and "url_Parse net (delivery_target (URL cfg)) = None"
    and "Do net (configured_client net cfg) (posted_request (delivery_target (URL cfg)) payload)
           = Inr resp"
  shows
    "sendToAlertmanager net cfg alerts =
       (if 200 \<le> StatusCode resp \<and> StatusCode resp < 300 then None
        else Some (ErrStatus (StatusCode resp) (resp_Body resp))) \<and>
     Error (ErrStatus (StatusCode resp) (resp_Body resp)) =
       ''Alertmanager returned status '' @ itoa (StatusCode resp) @ '': '' @ resp_Body resp \<and>
     (\<forall>decode now h provider ep alert result resolved h'.
        GetConfig decode h provider (ep_Group ep) alert = (h', Some cfg, None) \<and>
        alerts = [buildAlert h' now cfg ep alert result resolved] \<longrightarrow>
          Send decode net now h provider ep alert result resolved =
            (h', if 200 \<le> StatusCode resp \<and> StatusCode resp < 300 then None
                 else Some (ErrStatus (StatusCode resp) (resp_Body resp))))"
proof -
  have s: "sendToAlertmanager net cfg alerts =
       (if 200 \<le> StatusCode resp \<and> StatusCode resp < 300 then None
        else Some (ErrStatus (StatusCode resp) (resp_Body resp)))"
    using sendToAlertmanager_request [OF assms(1,2)] assms(3) by auto
  moreover have "Send decode net now h provider ep alert result resolved =
            (h', if 200 \<le> StatusCode resp \<and> StatusCode resp < 300 then None
                 else Some (ErrStatus (StatusCode resp) (resp_Body resp)))"
    if "GetConfig decode h provider (ep_Group ep) alert = (h', Some cfg, None)"
      and "alerts = [buildAlert h' now cfg ep alert result resolved]"
    for decode now h provider ep alert result resolved h'
    using that s by (simp add: Send_def Let_def)
  ultimately show ?thesis by simp
qed

theorem status_classification_witness:
  "sendToAlertmanager (mock_server 503 ''service unavailable'') scenario_config [] =
     Some (ErrStatus 503 ''service unavailable'') \<and>
   Error (ErrStatus 503 ''service unavailable'') =
     ''Alertmanager returned status 503: service unavailable'' \<and>
   sendToAlertmanager (mock_server 200 []) scenario_config [] = None \<and>
   sendToAlertmanager (mock_server 299 []) scenario_config [] = None \<and>
   sendToAlertmanager (mock_server 300 []) scenario_config [] = Some (ErrStatus 300 []) \<and>
   sendToAlertmanager (mock_server 199 []) scenario_config [] = Some (ErrStatus 199 []) \<and>
   Send no_decoder (mock_server 503 ''service unavailable'') 0 empty_store scenario_provider
       scenario_endpoint plain_alert scenario_result False =
     (empty_store, Some (ErrStatus 503 ''service unavailable'')) \<and>
   Send no_decoder (mock_server 200 []) 0 empty_store scenario_provider
       scenario_endpoint plain_alert scenario_result False = (empty_store, None)"
proof -
  have m: "json_Marshal (mock_server c b) a = Inr ''[{}]''"
    "url_Parse (mock_server c b) u = None"
    "Do (mock_server c b) k r = Inr \<lparr>StatusCode = c, resp_Body = b\<rparr>" for c b a u k r
    by (simp_all add: mock_server_def)
  have g: "GetConfig no_decoder empty_store scenario_provider (ep_Group scenario_endpoint)
      plain_alert = (empty_store, Some scenario_config, None)"
    using GetConfig_scenario by (simp add: scenario_endpoint_def)
  have i: "itoa 503 = ''503''"
    by (simp add: itoa_def digits.simps)
  have t: "sendToAlertmanager (mock_server c b) scenario_config a =
       (if 200 \<le> c \<and> c < 300 then None else Some (ErrStatus c b)) \<and>
     Error (ErrStatus c b) = ''Alertmanager returned status '' @ itoa c @ '': '' @ b \<and>
     (\<forall>decode now h provider ep alert result resolved h'.
        GetConfig decode h provider (ep_Group ep) alert = (h', Some scenario_config, None) \<and>
        a = [buildAlert h' now scenario_config ep alert result resolved] \<longrightarrow>
          Send decode (mock_server c b) now h provider ep alert result resolved =
            (h', if 200 \<le> c \<and> c < 300 then None else Some (ErrStatus c b)))" for c b a
    using status_classification
      [of "mock_server c b" a "''[{}]''" scenario_config "\<lparr>StatusCode = c, resp_Body = b\<rparr>",
       OF m(1) m(2) m(3)]
    by simp
  have 1: "sendToAlertmanager (mock_server c b) scenario_config [] =
      (if 200 \<le> c \<and> c < 300 then None else Some (ErrStatus c b))" for c b
    using t [of c b "[]"] by simp
  have 2: "Error (ErrStatus 503 ''service unavailable'') =
     ''Alertmanager returned status 503: service unavailable''"
    using t [of 503 "''service unavailable''" "[]"] by (simp add: i)
  have 3: "Send no_decoder (mock_server c b) 0 empty_store scenario_provider
       scenario_endpoint plain_alert scenario_result False =
     (empty_store, if 200 \<le> c \<and> c < 300 then None else Some (ErrStatus c b))" for c b
    using t [of c b "[buildAlert empty_store 0 scenario_config scenario_endpoint plain_alert
      scenario_result False]"] g by simp
  show ?thesis by (simp add: 1 2 3 i)
qed

subsection \<open>GetConfig\<close>

lemma copy_map_None: "copy_map h None = (h, None)"
  by (simp add: copy_map_def)

lemma copy_map_Some:
  "old < next_ref h \<Longrightarrow>
     copy_map h (Some old) =
       (h\<lparr>cells := (cells h)(next_ref h := cells h old), next_ref := Suc (next_ref h)\<rparr>,
        Some (next_ref h))"
  by (simp add: copy_map_def make_map_def range_assign_def)

lemma copy_map_props:
  assumes "copy_map h m = (h', m')" and "\<forall>r. m = Some r \<longrightarrow> r < next_ref h"
  shows "next_ref h \<le> next_ref h'"
    and "\<forall>r < next_ref h. cells h' r = cells h r"
    and "entries h' m' = entries h m"
    and "m' = None \<longleftrightarrow> m = None"
    and "\<forall>r. m' = Some r \<longrightarrow> next_ref h \<le> r \<and> r < next_ref h'"
  using assms
  by (cases m; auto simp add: copy_map_None copy_map_Some entries_def)+

lemma new_map_props:
  assumes "new_map h v = (h', m')"
  shows "next_ref h \<le> next_ref h'"
    and "\<forall>r < next_ref h. cells h' r = cells h r"
    and "entries h' m' = decoded_entries v"
    and "m' = None \<longleftrightarrow> v = None"
    and "\<forall>r. m' = Some r \<longrightarrow> next_ref h \<le> r \<and> r < next_ref h'"
  using assms
  by (cases v; auto simp add: new_map_def make_map_def range_assign_def entries_def
      decoded_entries_def)+

lemma group_override_find:
  "group_override h cfg grp overrides =
     (case find (\<lambda>override. grp = Group override) overrides of
        None \<Rightarrow> (h, cfg)
      | Some override \<Rightarrow> Merge h cfg (Config override))"
  by (induction overrides) simp_all

lemma Merge_zero_Config: "Merge h cfg zero_Config = (h, cfg)"
  by (simp add: Merge_def zero_Config_def merge_map_def len_pos_def entries_def)


lemma call_local_allocated: "call_local h0 h cfg \<Longrightarrow> allocated h cfg"
  by (simp add: call_local_def allocated_def)

lemma entries_frame:
  "\<forall>r < n. cells h' r = cells h r \<Longrightarrow> \<forall>r. m = Some r \<longrightarrow> r < n \<Longrightarrow> entries h' m = entries h m"
  by (cases m) (simp_all add: entries_def)

lemma Merge_labels_nil:
  assumes "Merge h cfg ov = (h', cfg')"
  shows "ExtraLabels cfg' = None \<longleftrightarrow> ExtraLabels cfg = None \<and> \<not> len_pos h (ExtraLabels ov)"
proof -
  from assms obtain h1 L' A' where
    1: "merge_map h (ExtraLabels cfg) (ExtraLabels ov) = (h1, L')" and
    L: "ExtraLabels cfg' = L'"
    by (rule Merge_steps)
  from merge_map_field [OF 1] L show ?thesis by (auto split: if_splits)
qed

lemma Merge_annotations_nil:
  assumes m: "Merge h cfg ov = (h', cfg')"
    and s: "\<forall>s. ExtraAnnotations ov = Some s \<longrightarrow> s < next_ref h"
    and d': "\<not> same_object (ExtraLabels cfg) (ExtraAnnotations ov)"
  shows "ExtraAnnotations cfg' = None \<longleftrightarrow>
           ExtraAnnotations cfg = None \<and> \<not> len_pos h (ExtraAnnotations ov)"
proof -
  from m obtain h1 L' A' where
    1: "merge_map h (ExtraLabels cfg) (ExtraLabels ov) = (h1, L')" and
    2: "merge_map h1 (ExtraAnnotations cfg) (ExtraAnnotations ov) = (h', A')" and
    A: "ExtraAnnotations cfg' = A'"
    by (rule Merge_steps)
  have "entries h1 (ExtraAnnotations ov) = entries h (ExtraAnnotations ov)"
  proof (cases "ExtraAnnotations ov")
    case None
    then show ?thesis by (simp add: entries_def)
  next
    case (Some r)
    with s d' have "r < next_ref h" "ExtraLabels cfg \<noteq> Some r"
      by (auto simp add: same_object_def)
    from merge_map_frame [OF 1 this] Some show ?thesis by (simp add: entries_def)
  qed
  then have "len_pos h1 (ExtraAnnotations ov) = len_pos h (ExtraAnnotations ov)"
    by (simp add: len_pos_def)
  with merge_map_field [OF 2] A show ?thesis by (auto split: if_splits)
qed

lemma Merge_call_local:
  assumes m: "Merge h cfg ov = (h', cfg')"
    and p: "call_local h0 h cfg"
    and a: "allocated h ov"
    and d: "map_refs ov \<inter> map_refs cfg = {}"
  shows "call_local h0 h' cfg'"
    and "entries h' (ExtraLabels cfg') = entries h (ExtraLabels cfg) ++ entries h (ExtraLabels ov)"
    and "entries h' (ExtraAnnotations cfg') =
           entries h (ExtraAnnotations cfg) ++ entries h (ExtraAnnotations ov)"
    and "ExtraLabels cfg' = None \<longleftrightarrow> ExtraLabels cfg = None \<and> \<not> len_pos h (ExtraLabels ov)"
    and "ExtraAnnotations cfg' = None \<longleftrightarrow>
           ExtraAnnotations cfg = None \<and> \<not> len_pos h (ExtraAnnotations ov)"
proof -
  from p have ac: "allocated h cfg" by (rule call_local_allocated)
  from p have sep: "\<not> same_object (ExtraLabels cfg) (ExtraAnnotations cfg)"
    by (simp add: call_local_def)
  from a have aL: "\<forall>s. ExtraLabels ov = Some s \<longrightarrow> s < next_ref h"
    and aA: "\<forall>s. ExtraAnnotations ov = Some s \<longrightarrow> s < next_ref h"
    by (auto simp add: allocated_def map_refs_def)
  from d have d': "\<not> same_object (ExtraLabels cfg) (ExtraAnnotations ov)"
    by (auto simp add: same_object_def map_refs_def)
  show "entries h' (ExtraLabels cfg') = entries h (ExtraLabels cfg) ++ entries h (ExtraLabels ov)"
    using m ac aL sep by (rule Merge_labels)
  show "entries h' (ExtraAnnotations cfg') =
           entries h (ExtraAnnotations cfg) ++ entries h (ExtraAnnotations ov)"
    using m ac aA sep d' by (rule Merge_annotations)
  show "ExtraLabels cfg' = None \<longleftrightarrow> ExtraLabels cfg = None \<and> \<not> len_pos h (ExtraLabels ov)"
    using m by (rule Merge_labels_nil)
  show "ExtraAnnotations cfg' = None \<longleftrightarrow>
           ExtraAnnotations cfg = None \<and> \<not> len_pos h (ExtraAnnotations ov)"
    using m aA d' by (rule Merge_annotations_nil)
  show "call_local h0 h' cfg'"
  proof -
    have 1: "next_ref h0 \<le> next_ref h'"
      using Merge_next_ref [OF m] p by (simp add: call_local_def)
    have 2: "\<forall>r \<in> map_refs cfg'. next_ref h0 \<le> r \<and> r < next_ref h'"
    proof
      fix r assume r: "r \<in> map_refs cfg'"
      from p have c: "\<forall>r \<in> map_refs cfg. next_ref h0 \<le> r \<and> r < next_ref h"
        and n: "next_ref h0 \<le> next_ref h"
        by (simp_all add: call_local_def)
      from r Merge_origin [OF m] c n Merge_next_ref [OF m]
      show "next_ref h0 \<le> r \<and> r < next_ref h'"
        by (fastforce simp add: map_refs_def)
    qed
    have 3: "\<not> same_object (ExtraLabels cfg') (ExtraAnnotations cfg')"
      using m ac sep by (rule Merge_separate)
    have 4: "\<forall>r < next_ref h0. cells h' r = cells h0 r"
    proof (intro allI impI)
      fix r assume r: "r < next_ref h0"
      with p have "r < next_ref h" "r \<notin> map_refs cfg" "cells h r = cells h0 r"
        by (auto simp add: call_local_def)
      with Merge_frame [OF m] show "cells h' r = cells h0 r" by simp
    qed
    from 1 2 3 4 show ?thesis by (simp add: call_local_def)
  qed
qed

lemma yaml_Unmarshal_error:
  "decode bytes = Inl err \<Longrightarrow> yaml_Unmarshal decode h bytes = (h, Inl err)"
  by (simp add: yaml_Unmarshal_def)

lemma yaml_Unmarshal_value:
  assumes "decode bytes = Inr v"
  obtains h' cfg where "yaml_Unmarshal decode h bytes = (h', Inr cfg)"
    and "URL cfg = URL v" and "Timeout cfg = Timeout v"
    and "DefaultSeverity cfg = DefaultSeverity v" and "ClientConfig cfg = ClientConfig v"
    and "entries h' (ExtraLabels cfg) = decoded_entries (ExtraLabels v)"
    and "entries h' (ExtraAnnotations cfg) = decoded_entries (ExtraAnnotations v)"
    and "next_ref h \<le> next_ref h'"
    and "\<forall>r < next_ref h. cells h' r = cells h r"
    and "\<forall>r \<in> map_refs cfg. next_ref h \<le> r \<and> r < next_ref h'"
proof -
  obtain h1 l where 1: "new_map h (ExtraLabels v) = (h1, l)" by (cases "new_map h (ExtraLabels v)")
  obtain h2 a where 2: "new_map h1 (ExtraAnnotations v) = (h2, a)"
    by (cases "new_map h1 (ExtraAnnotations v)")
  let ?cfg = "\<lparr>URL = URL v, Timeout = Timeout v, DefaultSeverity = DefaultSeverity v,
                ExtraLabels = l, ExtraAnnotations = a, ClientConfig = ClientConfig v\<rparr>"
  have y: "yaml_Unmarshal decode h bytes = (h2, Inr ?cfg)"
    using assms 1 2 by (simp add: yaml_Unmarshal_def)
  note n1 = new_map_props [OF 1] and n2 = new_map_props [OF 2]
  have l: "entries h2 l = decoded_entries (ExtraLabels v)"
  proof -
    from n1(5) n2(2) have "entries h2 l = entries h1 l"
      by (cases l) (simp_all add: entries_def)
    with n1(3) show ?thesis by simp
  qed
  have f: "\<forall>r < next_ref h. cells h2 r = cells h r"
    using n1(1) n1(2) n2(2) by auto
  have r: "\<forall>r \<in> map_refs ?cfg. next_ref h \<le> r \<and> r < next_ref h2"
    using n1(1) n1(5) n2(1) n2(5) by (fastforce simp add: map_refs_def)
  from n1(1) n2(1) have "next_ref h \<le> next_ref h2" by simp
  with y l n2(3) f r show ?thesis
    by (intro that [of h2 ?cfg]) simp_all
qed

lemma group_override_group_config:
  "group_override h cfg grp (Overrides provider) = Merge h cfg (group_config provider grp)"
  by (simp add: group_override_find group_config_def Merge_zero_Config split: option.splits)

lemma group_config_allocated:
  assumes "provider_allocated h provider"
  shows "allocated h (group_config provider grp)"
proof (cases "find (\<lambda>override. grp = Group override) (Overrides provider)")
  case None
  then show ?thesis
    by (simp add: group_config_def allocated_def map_refs_def zero_Config_def)
next
  case (Some override)
  then have "override \<in> set (Overrides provider)"
    by (auto simp add: find_Some_iff)
  with assms Some show ?thesis
    by (simp add: group_config_def provider_allocated_def)
qed

lemma GetConfig_stages:
  assumes "copy_map h (ExtraLabels (DefaultConfig provider)) = (h1, l)"
    and "copy_map h1 (ExtraAnnotations (DefaultConfig provider)) = (h2, a)"
    and "Merge h2 ((DefaultConfig provider)\<lparr>ExtraLabels := l, ExtraAnnotations := a\<rparr>)
           (group_config provider grp) = (h3, cfg3)"
  shows "GetConfig decode h provider grp alert =
     (if ProviderOverride alert \<noteq> [] then
        (case yaml_Unmarshal decode h3 (ProviderOverrideAsBytes alert) of
           (h, Inl err) \<Rightarrow> (h, None, Some (ErrYaml err))
         | (h, Inr overrideConfig) \<Rightarrow>
             (fst (Merge h cfg3 overrideConfig),
              Some (fst (Validate (snd (Merge h cfg3 overrideConfig)))),
              snd (Validate (snd (Merge h cfg3 overrideConfig)))))
      else (h3, Some (fst (Validate cfg3)), snd (Validate cfg3)))"
  using assms
  by (simp add: GetConfig_def Let_def group_override_group_config split: prod.splits sum.splits)


lemma GetConfig_group_layer:
  assumes pa: "provider_allocated h provider"
  obtains h3 cfg3 where
    "GetConfig decode h provider grp alert =
     (if ProviderOverride alert \<noteq> [] then
        (case yaml_Unmarshal decode h3 (ProviderOverrideAsBytes alert) of
           (h, Inl err) \<Rightarrow> (h, None, Some (ErrYaml err))
         | (h, Inr overrideConfig) \<Rightarrow>
             (fst (Merge h cfg3 overrideConfig),
              Some (fst (Validate (snd (Merge h cfg3 overrideConfig)))),
              snd (Validate (snd (Merge h cfg3 overrideConfig)))))
      else (h3, Some (fst (Validate cfg3)), snd (Validate cfg3)))"
    and "call_local h h3 cfg3"
    and "URL cfg3 = (if URL (group_config provider grp) \<noteq> [] then URL (group_config provider grp)
                     else URL (DefaultConfig provider))"
    and "Timeout cfg3 = (if 0 < Timeout (group_config provider grp)
                         then Timeout (group_config provider grp)
                         else Timeout (DefaultConfig provider))"
    and "DefaultSeverity cfg3 = (if DefaultSeverity (group_config provider grp) \<noteq> []
                                 then DefaultSeverity (group_config provider grp)
                                 else DefaultSeverity (DefaultConfig provider))"
    and "ClientConfig cfg3 = (if ClientConfig (group_config provider grp) \<noteq> None
                              then ClientConfig (group_config provider grp)
                              else ClientConfig (DefaultConfig provider))"
    and "entries h3 (ExtraLabels cfg3) =
           entries h (ExtraLabels (DefaultConfig provider)) ++
           entries h (ExtraLabels (group_config provider grp))"
    and "entries h3 (ExtraAnnotations cfg3) =
           entries h (ExtraAnnotations (DefaultConfig provider)) ++
           entries h (ExtraAnnotations (group_config provider grp))"
    and "ExtraLabels cfg3 = None \<longleftrightarrow>
           ExtraLabels (DefaultConfig provider) = None \<and>
           \<not> len_pos h (ExtraLabels (group_config provider grp))"
    and "ExtraAnnotations cfg3 = None \<longleftrightarrow>
           ExtraAnnotations (DefaultConfig provider) = None \<and>
           \<not> len_pos h (ExtraAnnotations (group_config provider grp))"
proof -
  let ?D = "DefaultConfig provider" and ?G = "group_config provider grp"
  from pa have aD: "allocated h ?D" by (simp add: provider_allocated_def)
  then have aL: "\<forall>r. ExtraLabels ?D = Some r \<longrightarrow> r < next_ref h"
    and aA: "\<forall>r. ExtraAnnotations ?D = Some r \<longrightarrow> r < next_ref h"
    by (auto simp add: allocated_def map_refs_def)
  from pa have aG: "allocated h ?G" by (rule group_config_allocated)
  obtain h1 l where 1: "copy_map h (ExtraLabels ?D) = (h1, l)"
    by (cases "copy_map h (ExtraLabels ?D)")
  note c1 = copy_map_props [OF 1 aL]
  from aA c1(1) have aA1: "\<forall>r. ExtraAnnotations ?D = Some r \<longrightarrow> r < next_ref h1" by auto
  obtain h2 a where 2: "copy_map h1 (ExtraAnnotations ?D) = (h2, a)"
    by (cases "copy_map h1 (ExtraAnnotations ?D)")
  note c2 = copy_map_props [OF 2 aA1]
  let ?cfg0 = "?D\<lparr>ExtraLabels := l, ExtraAnnotations := a\<rparr>"
  have f2: "\<forall>r < next_ref h. cells h2 r = cells h r"
    using c1(1) c1(2) c2(2) by auto
  have l2: "entries h2 l = entries h (ExtraLabels ?D)"
  proof -
    from c1(5) have "\<forall>r. l = Some r \<longrightarrow> r < next_ref h1" by simp
    with c2(2) have "entries h2 l = entries h1 l" by (rule entries_frame)
    with c1(3) show ?thesis by simp
  qed
  have a2: "entries h2 a = entries h (ExtraAnnotations ?D)"
  proof -
    from c1(2) aA have "entries h1 (ExtraAnnotations ?D) = entries h (ExtraAnnotations ?D)"
      by (rule entries_frame)
    with c2(3) show ?thesis by simp
  qed
  have p0: "call_local h h2 ?cfg0"
    using c1(1) c1(5) c2(1) c2(5) f2
    by (fastforce simp add: call_local_def map_refs_def same_object_def)
  from aG c1(1) c2(1) have aG2: "allocated h2 ?G" by (fastforce simp add: allocated_def)
  have dG: "map_refs ?G \<inter> map_refs ?cfg0 = {}"
    using aG p0 by (fastforce simp add: allocated_def call_local_def)
  have eG: "entries h2 (ExtraLabels ?G) = entries h (ExtraLabels ?G)"
    "entries h2 (ExtraAnnotations ?G) = entries h (ExtraAnnotations ?G)"
    using aG by (auto intro!: entries_frame [OF f2] simp add: allocated_def map_refs_def)
  then have lG: "len_pos h2 (ExtraLabels ?G) = len_pos h (ExtraLabels ?G)"
    "len_pos h2 (ExtraAnnotations ?G) = len_pos h (ExtraAnnotations ?G)"
    by (simp_all add: len_pos_def)
  obtain h3 cfg3 where 3: "Merge h2 ?cfg0 ?G = (h3, cfg3)" by (cases "Merge h2 ?cfg0 ?G")
  note m = Merge_call_local [OF 3 p0 aG2 dG]
  show ?thesis
  proof (rule that)
    show "GetConfig decode h provider grp alert =
     (if ProviderOverride alert \<noteq> [] then
        (case yaml_Unmarshal decode h3 (ProviderOverrideAsBytes alert) of
           (h, Inl err) \<Rightarrow> (h, None, Some (ErrYaml err))
         | (h, Inr overrideConfig) \<Rightarrow>
             (fst (Merge h cfg3 overrideConfig),
              Some (fst (Validate (snd (Merge h cfg3 overrideConfig)))),
              snd (Validate (snd (Merge h cfg3 overrideConfig)))))
      else (h3, Some (fst (Validate cfg3)), snd (Validate cfg3)))"
      using 1 2 3 by (rule GetConfig_stages)
    show "call_local h h3 cfg3" by (rule m(1))
    show "URL cfg3 = (if URL ?G \<noteq> [] then URL ?G else URL ?D)"
      using Merge_URL [OF 3] by simp
    show "Timeout cfg3 = (if 0 < Timeout ?G then Timeout ?G else Timeout ?D)"
      using Merge_Timeout [OF 3] by simp
    show "DefaultSeverity cfg3 =
        (if DefaultSeverity ?G \<noteq> [] then DefaultSeverity ?G else DefaultSeverity ?D)"
      using Merge_DefaultSeverity [OF 3] by simp
    show "ClientConfig cfg3 =
        (if ClientConfig ?G \<noteq> None then ClientConfig ?G else ClientConfig ?D)"
      using Merge_ClientConfig [OF 3] by simp
    show "entries h3 (ExtraLabels cfg3) =
           entries h (ExtraLabels ?D) ++ entries h (ExtraLabels ?G)"
      using m(2) l2 eG(1) by simp
    show "entries h3 (ExtraAnnotations cfg3) =
           entries h (ExtraAnnotations ?D) ++ entries h (ExtraAnnotations ?G)"
      using m(3) a2 eG(2) by simp
    show "ExtraLabels cfg3 = None \<longleftrightarrow>
           ExtraLabels ?D = None \<and> \<not> len_pos h (ExtraLabels ?G)"
      using m(4) c1(4) lG(1) by simp
    show "ExtraAnnotations cfg3 = None \<longleftrightarrow>
           ExtraAnnotations ?D = None \<and> \<not> len_pos h (ExtraAnnotations ?G)"
      using m(5) c2(4) lG(2) by simp
  qed
qed

lemma call_local_later:
  assumes "call_local h0 h cfg" and "next_ref h \<le> next_ref h'"
    and "\<forall>r < next_ref h. cells h' r = cells h r"
  shows "call_local h0 h' cfg"
  using assms by (fastforce simp add: call_local_def)

lemma call_local_entries_later:
  assumes "call_local h0 h cfg" and "\<forall>r < next_ref h. cells h' r = cells h r"
  shows "entries h' (ExtraLabels cfg) = entries h (ExtraLabels cfg)"
    and "entries h' (ExtraAnnotations cfg) = entries h (ExtraAnnotations cfg)"
  using assms
  by (auto intro!: entries_frame [OF assms(2)] simp add: call_local_def map_refs_def)

lemma GetConfig_layers:
  assumes pa: "provider_allocated h provider"
    and F: "alert_override decode alert = Inr F"
  obtains h' layered where
    "GetConfig decode h provider grp alert =
       (h', Some (fst (Validate layered)), snd (Validate layered))"
    and "call_local h h' layered"
    and "URL layered =
          (if URL F \<noteq> [] then URL F
           else if URL (group_config provider grp) \<noteq> [] then URL (group_config provider grp)
           else URL (DefaultConfig provider))"
    and "Timeout layered =
          (if 0 < Timeout F then Timeout F
           else if 0 < Timeout (group_config provider grp)
           then Timeout (group_config provider grp)
           else Timeout (DefaultConfig provider))"
    and "DefaultSeverity layered =
          (if DefaultSeverity F \<noteq> [] then DefaultSeverity F
           else if DefaultSeverity (group_config provider grp) \<noteq> []
           then DefaultSeverity (group_config provider grp)
           else DefaultSeverity (DefaultConfig provider))"
    and "ClientConfig layered =
          (if ClientConfig F \<noteq> None then ClientConfig F
           else if ClientConfig (group_config provider grp) \<noteq> None
           then ClientConfig (group_config provider grp)
           else ClientConfig (DefaultConfig provider))"
    and "entries h' (ExtraLabels layered) =
           entries h (ExtraLabels (DefaultConfig provider)) ++
           entries h (ExtraLabels (group_config provider grp)) ++
           decoded_entries (ExtraLabels F)"
    and "entries h' (ExtraAnnotations layered) =
           entries h (ExtraAnnotations (DefaultConfig provider)) ++
           entries h (ExtraAnnotations (group_config provider grp)) ++
           decoded_entries (ExtraAnnotations F)"
    and "ExtraLabels layered = None \<longleftrightarrow>
           ExtraLabels (DefaultConfig provider) = None \<and>
           \<not> len_pos h (ExtraLabels (group_config provider grp)) \<and>
           decoded_entries (ExtraLabels F) = Map.empty"
    and "ExtraAnnotations layered = None \<longleftrightarrow>
           ExtraAnnotations (DefaultConfig provider) = None \<and>
           \<not> len_pos h (ExtraAnnotations (group_config provider grp)) \<and>
           decoded_entries (ExtraAnnotations F) = Map.empty"
proof -
  let ?D = "DefaultConfig provider" and ?G = "group_config provider grp"
  from pa obtain h3 cfg3 where
    g: "GetConfig decode h provider grp alert =
     (if ProviderOverride alert \<noteq> [] then
        (case yaml_Unmarshal decode h3 (ProviderOverrideAsBytes alert) of
           (h, Inl err) \<Rightarrow> (h, None, Some (ErrYaml err))
         | (h, Inr overrideConfig) \<Rightarrow>
             (fst (Merge h cfg3 overrideConfig),
              Some (fst (Validate (snd (Merge h cfg3 overrideConfig)))),
              snd (Validate (snd (Merge h cfg3 overrideConfig)))))
      else (h3, Some (fst (Validate cfg3)), snd (Validate cfg3)))"
    and p3: "call_local h h3 cfg3"
    and s3: "URL cfg3 = (if URL ?G \<noteq> [] then URL ?G else URL ?D)"
      "Timeout cfg3 = (if 0 < Timeout ?G then Timeout ?G else Timeout ?D)"
      "DefaultSeverity cfg3 =
         (if DefaultSeverity ?G \<noteq> [] then DefaultSeverity ?G else DefaultSeverity ?D)"
      "ClientConfig cfg3 =
         (if ClientConfig ?G \<noteq> None then ClientConfig ?G else ClientConfig ?D)"
    and e3: "entries h3 (ExtraLabels cfg3) =
           entries h (ExtraLabels ?D) ++ entries h (ExtraLabels ?G)"
      "entries h3 (ExtraAnnotations cfg3) =
           entries h (ExtraAnnotations ?D) ++ entries h (ExtraAnnotations ?G)"
    and n3: "ExtraLabels cfg3 = None \<longleftrightarrow>
           ExtraLabels ?D = None \<and> \<not> len_pos h (ExtraLabels ?G)"
      "ExtraAnnotations cfg3 = None \<longleftrightarrow>
           ExtraAnnotations ?D = None \<and> \<not> len_pos h (ExtraAnnotations ?G)"
    by (rule GetConfig_group_layer [of h provider decode grp alert])
  show ?thesis
  proof (cases "ProviderOverride alert = []")
    case True
    with F have z: "F = zero_Config" by (simp add: alert_override_def)
    have zf: "URL F = []" "Timeout F = 0" "DefaultSeverity F = []" "ClientConfig F = None"
      "decoded_entries (ExtraLabels F) = Map.empty"
      "decoded_entries (ExtraAnnotations F) = Map.empty"
      by (simp_all add: z zero_Config_def decoded_entries_def)
    show ?thesis
    proof (rule that)
      show "GetConfig decode h provider grp alert =
         (h3, Some (fst (Validate cfg3)), snd (Validate cfg3))"
        using g True by simp
    qed (simp_all add: p3 s3 e3 n3 zf)
  next
    case False
    with F have dF: "decode (ProviderOverrideAsBytes alert) = Inr F"
      by (simp add: alert_override_def)
    from dF obtain h4 oc where
      y: "yaml_Unmarshal decode h3 (ProviderOverrideAsBytes alert) = (h4, Inr oc)"
      and so: "URL oc = URL F" "Timeout oc = Timeout F" "DefaultSeverity oc = DefaultSeverity F"
        "ClientConfig oc = ClientConfig F"
      and eo: "entries h4 (ExtraLabels oc) = decoded_entries (ExtraLabels F)"
        "entries h4 (ExtraAnnotations oc) = decoded_entries (ExtraAnnotations F)"
      and n4: "next_ref h3 \<le> next_ref h4"
      and f4: "\<forall>r < next_ref h3. cells h4 r = cells h3 r"
      and ro: "\<forall>r \<in> map_refs oc. next_ref h3 \<le> r \<and> r < next_ref h4"
      by (rule yaml_Unmarshal_value [of decode "ProviderOverrideAsBytes alert" F h3])
    from p3 n4 f4 have p4: "call_local h h4 cfg3" by (rule call_local_later)
    note e4 = call_local_entries_later [OF p3 f4]
    from ro have a4: "allocated h4 oc" by (simp add: allocated_def)
    from ro p3 have d4: "map_refs oc \<inter> map_refs cfg3 = {}"
      by (fastforce simp add: call_local_def)
    obtain h5 cfg5 where 5: "Merge h4 cfg3 oc = (h5, cfg5)" by (cases "Merge h4 cfg3 oc")
    note m = Merge_call_local [OF 5 p4 a4 d4]
    show ?thesis
    proof (rule that)
      show "GetConfig decode h provider grp alert =
         (h5, Some (fst (Validate cfg5)), snd (Validate cfg5))"
        using g False y 5 by simp
      show "call_local h h5 cfg5" by (rule m(1))
      show "URL cfg5 = (if URL F \<noteq> [] then URL F
           else if URL ?G \<noteq> [] then URL ?G else URL ?D)"
        using Merge_URL [OF 5] so s3 by simp
      show "Timeout cfg5 = (if 0 < Timeout F then Timeout F
           else if 0 < Timeout ?G then Timeout ?G else Timeout ?D)"
        using Merge_Timeout [OF 5] so s3 by simp
      show "DefaultSeverity cfg5 = (if DefaultSeverity F \<noteq> [] then DefaultSeverity F
           else if DefaultSeverity ?G \<noteq> [] then DefaultSeverity ?G else DefaultSeverity ?D)"
        using Merge_DefaultSeverity [OF 5] so s3 by simp
      show "ClientConfig cfg5 = (if ClientConfig F \<noteq> None then ClientConfig F
           else if ClientConfig ?G \<noteq> None then ClientConfig ?G else ClientConfig ?D)"
        using Merge_ClientConfig [OF 5] so s3 by simp
      show "entries h5 (ExtraLabels cfg5) =
           entries h (ExtraLabels ?D) ++ entries h (ExtraLabels ?G) ++
           decoded_entries (ExtraLabels F)"
        using m(2) e4(1) e3(1) eo(1) by simp
      show "entries h5 (ExtraAnnotations cfg5) =
           entries h (ExtraAnnotations ?D) ++ entries h (ExtraAnnotations ?G) ++
           decoded_entries (ExtraAnnotations F)"
        using m(3) e4(2) e3(2) eo(2) by simp
      show "ExtraLabels cfg5 = None \<longleftrightarrow>
           ExtraLabels ?D = None \<and> \<not> len_pos h (ExtraLabels ?G) \<and>
           decoded_entries (ExtraLabels F) = Map.empty"
        using m(4) n3(1) eo(1) by (simp add: len_pos_def)
      show "ExtraAnnotations cfg5 = None \<longleftrightarrow>
           ExtraAnnotations ?D = None \<and> \<not> len_pos h (ExtraAnnotations ?G) \<and>
           decoded_entries (ExtraAnnotations F) = Map.empty"
        using m(5) n3(2) eo(2) by (simp add: len_pos_def)
    qed
  qed
qed

lemma Validate_fields:
  "URL (fst (Validate c)) = URL c"
  "Timeout (fst (Validate c)) =
     (if URL c = [] then Timeout c else if Timeout c = 0 then 10 * Second else Timeout c)"
  "DefaultSeverity (fst (Validate c)) =
     (if URL c = [] then DefaultSeverity c
      else if DefaultSeverity c = [] then ''critical'' else DefaultSeverity c)"
  "ClientConfig (fst (Validate c)) = ClientConfig c"
  "ExtraLabels (fst (Validate c)) = ExtraLabels c"
  "ExtraAnnotations (fst (Validate c)) = ExtraAnnotations c"
  "snd (Validate c) = (if URL c = [] then Some ErrAlertmanagerURLNotSet else None)"
  by (simp_all add: Validate_def Let_def)

lemma group_config_first:
  assumes "Overrides provider = before @ ov # after" and "Group ov = grp"
    and "\<forall>override \<in> set before. Group override \<noteq> grp"
  shows "group_config provider grp = Config ov"
proof -
  have "find (\<lambda>override. grp = Group override) (before @ ov # after) = Some ov"
    using assms(2,3) by (induction before) auto
  with assms(1) show ?thesis by (simp add: group_config_def)
qed

lemma group_config_none:
  assumes "\<forall>override \<in> set (Overrides provider). Group override \<noteq> grp"
  shows "group_config provider grp = zero_Config"
proof -
  from assms have "find (\<lambda>override. grp = Group override) (Overrides provider) = None"
    by (auto simp add: find_None_iff)
  then show ?thesis by (simp add: group_config_def)
qed

lemma layered_allocated: "provider_allocated layered_store layered_provider"
  by (simp add: provider_allocated_def allocated_def map_refs_def layered_store_def
      layered_provider_def)

lemma layered_alert_override: "alert_override sample_decoder layered_alert = Inr sample_fragment"
  by (simp add: alert_override_def layered_alert_def sample_decoder_def
      ProviderOverrideAsBytes_def)

lemma first_call_eval:
  "\<exists>h1. first_call =
     (h1, Some \<lparr>URL = ''http://am:9093'', Timeout = 30 * Second, DefaultSeverity = ''page'',
                ExtraLabels = Some 2, ExtraAnnotations = None, ClientConfig = None\<rparr>, None)"
  by (simp add: first_call_def GetConfig_def copy_map_def make_map_def range_assign_def
      Merge_def merge_map_def len_pos_def entries_def yaml_Unmarshal_def new_map_def
      Validate_def Let_def layered_store_def layered_provider_def layered_alert_def
      sample_decoder_def sample_fragment_def ProviderOverrideAsBytes_def Second_def)


text \<open>
  Claim C1. For a provider whose maps are allocated, a group name and an alert whose
  override is empty or decodes to \<open>F\<close>: \<open>GetConfig\<close> returns a configuration, which is
  \<open>Validate\<close> applied to the layered one. In the layered configuration each of URL,
  Timeout, DefaultSeverity and ClientConfig is the alert's if the alert sets it, else the
  group override's if that sets it, else the default's; the entries of ExtraLabels and of
  ExtraAnnotations are the default's, overridden by the group override's, overridden by
  the alert's. The group override is the first one, in declaration order, whose Group is
  the name: the overrides after it are not looked at, and without a match nothing is
  merged at that layer. A field is set when \<open>Merge\<close> finds it present (claim C6).
\<close>

theorem GetConfig_layering:
  assumes "provider_allocated h provider" and "alert_override decode alert = Inr F"
  shows
    "(\<exists>h' cfg err layered.
        GetConfig decode h provider grp alert = (h', Some cfg, err) \<and>
        Validate layered = (cfg, err) \<and>
        URL layered =
          (if URL F \<noteq> [] then URL F
           else if URL (group_config provider grp) \<noteq> [] then URL (group_config provider grp)
           else URL (DefaultConfig provider)) \<and>
        Timeout layered =
          (if 0 < Timeout F then Timeout F
           else if 0 < Timeout (group_config provider grp)
           then Timeout (group_config provider grp)
           else Timeout (DefaultConfig provider)) \<and>
        DefaultSeverity layered =
          (if DefaultSeverity F \<noteq> [] then DefaultSeverity F
           else if DefaultSeverity (group_config provider grp) \<noteq> []
           then DefaultSeverity (group_config provider grp)
           else DefaultSeverity (DefaultConfig provider)) \<and>
        ClientConfig layered =
          (if ClientConfig F \<noteq> None then ClientConfig F
           else if ClientConfig (group_config provider grp) \<noteq> None
           then ClientConfig (group_config provider grp)
           else ClientConfig (DefaultConfig provider)) \<and>
        entries h' (ExtraLabels cfg) =
          entries h (ExtraLabels (DefaultConfig provider)) ++
          entries h (ExtraLabels (group_config provider grp)) ++
          decoded_entries (ExtraLabels F) \<and>
        entries h' (ExtraAnnotations cfg) =
          entries h (ExtraAnnotations (DefaultConfig provider)) ++
          entries h (ExtraAnnotations (group_config provider grp)) ++
          decoded_entries (ExtraAnnotations F)) \<and>
     (\<forall>before ov after.
        Overrides provider = before @ ov # after \<and> Group ov = grp \<and>
        (\<forall>override \<in> set before. Group override \<noteq> grp) \<longrightarrow>
          group_config provider grp = Config ov) \<and>
     ((\<forall>override \<in> set (Overrides provider). Group override \<noteq> grp) \<longrightarrow>
        group_config provider grp = zero_Config)"
proof (intro conjI)
  from assms obtain h' layered where
    g: "GetConfig decode h provider grp alert =
       (h', Some (fst (Validate layered)), snd (Validate layered))"
    and s: "URL layered =
          (if URL F \<noteq> [] then URL F
           else if URL (group_config provider grp) \<noteq> [] then URL (group_config provider grp)
           else URL (DefaultConfig provider))"
      "Timeout layered =
          (if 0 < Timeout F then Timeout F
           else if 0 < Timeout (group_config provider grp)
           then Timeout (group_config provider grp)
           else Timeout (DefaultConfig provider))"
      "DefaultSeverity layered =
          (if DefaultSeverity F \<noteq> [] then DefaultSeverity F
           else if DefaultSeverity (group_config provider grp) \<noteq> []
           then DefaultSeverity (group_config provider grp)
           else DefaultSeverity (DefaultConfig provider))"
      "ClientConfig layered =
          (if ClientConfig F \<noteq> None then ClientConfig F
           else if ClientConfig (group_config provider grp) \<noteq> None
           then ClientConfig (group_config provider grp)
           else ClientConfig (DefaultConfig provider))"
    and e: "entries h' (ExtraLabels layered) =
           entries h (ExtraLabels (DefaultConfig provider)) ++
           entries h (ExtraLabels (group_config provider grp)) ++
           decoded_entries (ExtraLabels F)"
      "entries h' (ExtraAnnotations layered) =
           entries h (ExtraAnnotations (DefaultConfig provider)) ++
           entries h (ExtraAnnotations (group_config provider grp)) ++
           decoded_entries (ExtraAnnotations F)"
    by (rule GetConfig_layers [of h provider decode alert F grp])
  have v: "Validate layered = (fst (Validate layered), snd (Validate layered))" by simp
  from e have e': "entries h' (ExtraLabels (fst (Validate layered))) =
           entries h (ExtraLabels (DefaultConfig provider)) ++
           entries h (ExtraLabels (group_config provider grp)) ++
           decoded_entries (ExtraLabels F)"
      "entries h' (ExtraAnnotations (fst (Validate layered))) =
           entries h (ExtraAnnotations (DefaultConfig provider)) ++
           entries h (ExtraAnnotations (group_config provider grp)) ++
           decoded_entries (ExtraAnnotations F)"
    by (simp_all add: Validate_fields)
  from g v s e' show "\<exists>h' cfg err layered.
        GetConfig decode h provider grp alert = (h', Some cfg, err) \<and>
        Validate layered = (cfg, err) \<and>
        URL layered =
          (if URL F \<noteq> [] then URL F
           else if URL (group_config provider grp) \<noteq> [] then URL (group_config provider grp)
           else URL (DefaultConfig provider)) \<and>
        Timeout layered =
          (if 0 < Timeout F then Timeout F
           else if 0 < Timeout (group_config provider grp)
           then Timeout (group_config provider grp)
           else Timeout (DefaultConfig provider)) \<and>
        DefaultSeverity layered =
          (if DefaultSeverity F \<noteq> [] then DefaultSeverity F
           else if DefaultSeverity (group_config provider grp) \<noteq> []
           then DefaultSeverity (group_config provider grp)
           else DefaultSeverity (DefaultConfig provider)) \<and>
        ClientConfig layered =
          (if ClientConfig F \<noteq> None then ClientConfig F
           else if ClientConfig (group_config provider grp) \<noteq> None
           then ClientConfig (group_config provider grp)
           else ClientConfig (DefaultConfig provider)) \<and>
        entries h' (ExtraLabels cfg) =
          entries h (ExtraLabels (DefaultConfig provider)) ++
          entries h (ExtraLabels (group_config provider grp)) ++
          decoded_entries (ExtraLabels F) \<and>
        entries h' (ExtraAnnotations cfg) =
          entries h (ExtraAnnotations (DefaultConfig provider)) ++
          entries h (ExtraAnnotations (group_config provider grp)) ++
          decoded_entries (ExtraAnnotations F)"
    by blast
next
  show "\<forall>before ov after.
        Overrides provider = before @ ov # after \<and> Group ov = grp \<and>
        (\<forall>override \<in> set before. Group override \<noteq> grp) \<longrightarrow>
          group_config provider grp = Config ov"
    using group_config_first [of provider _ _ _ grp] by blast
next
  show "(\<forall>override \<in> set (Overrides provider). Group override \<noteq> grp) \<longrightarrow>
        group_config provider grp = zero_Config"
    using group_config_none [of provider grp] by blast
qed


theorem GetConfig_layering_witness:
  "\<exists>h' cfg.
     GetConfig sample_decoder layered_store layered_provider ''prod'' layered_alert =
       (h', Some cfg, None) \<and>
     URL cfg = ''http://am:9093'' \<and> Timeout cfg = 30 * Second \<and>
     DefaultSeverity cfg = ''page'' \<and>
     entries h' (ExtraLabels cfg) ''team'' = Some ''payments'' \<and>
     entries h' (ExtraLabels cfg) ''tier'' = Some ''platinum'' \<and>
     entries h' (ExtraAnnotations cfg) = Map.empty"
proof -
  note t = GetConfig_layering [OF layered_allocated layered_alert_override, of "''prod''"]
  have o: "Overrides layered_provider = [] @ hd (Overrides layered_provider) #
      tl (Overrides layered_provider)"
    "Group (hd (Overrides layered_provider)) = ''prod''"
    by (simp_all add: layered_provider_def)
  from t have "\<forall>before ov after.
        Overrides layered_provider = before @ ov # after \<and> Group ov = ''prod'' \<and>
        (\<forall>override \<in> set before. Group override \<noteq> ''prod'') \<longrightarrow>
          group_config layered_provider ''prod'' = Config ov"
    by (elim conjE)
  from this [rule_format, of "[]" "hd (Overrides layered_provider)"
      "tl (Overrides layered_provider)"] o
  have "group_config layered_provider ''prod'' = Config (hd (Overrides layered_provider))"
    by simp
  then have g: "group_config layered_provider ''prod'' =
      \<lparr>URL = [], Timeout = 30 * Second, DefaultSeverity = ''warning'',
       ExtraLabels = Some 1, ExtraAnnotations = None, ClientConfig = None\<rparr>"
    by (simp add: layered_provider_def)
  have eD: "entries layered_store (ExtraLabels (DefaultConfig layered_provider)) =
      [''team'' \<mapsto> ''platform'']"
    "entries layered_store (ExtraAnnotations (DefaultConfig layered_provider)) = Map.empty"
    by (simp_all add: layered_provider_def layered_store_def entries_def)
  have eG: "entries layered_store (ExtraLabels (group_config layered_provider ''prod'')) =
      [''team'' \<mapsto> ''payments'', ''tier'' \<mapsto> ''gold'']"
    "entries layered_store (ExtraAnnotations (group_config layered_provider ''prod'')) = Map.empty"
    by (simp_all add: g layered_store_def entries_def)
  have eF: "decoded_entries (ExtraLabels sample_fragment) = [''tier'' \<mapsto> ''platinum'']"
    "decoded_entries (ExtraAnnotations sample_fragment) = Map.empty"
    by (simp_all add: sample_fragment_def decoded_entries_def)
  have sF: "URL sample_fragment = []" "Timeout sample_fragment = 0"
    "DefaultSeverity sample_fragment = ''page''"
    by (simp_all add: sample_fragment_def)
  have sG: "URL (group_config layered_provider ''prod'') = []"
    "Timeout (group_config layered_provider ''prod'') = 30 * Second"
    by (simp_all add: g)
  have sD: "URL (DefaultConfig layered_provider) = ''http://am:9093''"
    by (simp add: layered_provider_def)
  from t have "\<exists>h' cfg err layered.
        GetConfig sample_decoder layered_store layered_provider ''prod'' layered_alert =
          (h', Some cfg, err) \<and>
        Validate layered = (cfg, err) \<and>
        URL layered =
          (if URL sample_fragment \<noteq> [] then URL sample_fragment
           else if URL (group_config layered_provider ''prod'') \<noteq> []
           then URL (group_config layered_provider ''prod'')
           else URL (DefaultConfig layered_provider)) \<and>
        Timeout layered =
          (if 0 < Timeout sample_fragment then Timeout sample_fragment
           else if 0 < Timeout (group_config layered_provider ''prod'')
           then Timeout (group_config layered_provider ''prod'')
           else Timeout (DefaultConfig layered_provider)) \<and>
        DefaultSeverity layered =
          (if DefaultSeverity sample_fragment \<noteq> [] then DefaultSeverity sample_fragment
           else if DefaultSeverity (group_config layered_provider ''prod'') \<noteq> []
           then DefaultSeverity (group_config layered_provider ''prod'')
           else DefaultSeverity (DefaultConfig layered_provider)) \<and>
        ClientConfig layered =
          (if ClientConfig sample_fragment \<noteq> None then ClientConfig sample_fragment
           else if ClientConfig (group_config layered_provider ''prod'') \<noteq> None
           then ClientConfig (group_config layered_provider ''prod'')
           else ClientConfig (DefaultConfig layered_provider)) \<and>
        entries h' (ExtraLabels cfg) =
          entries layered_store (ExtraLabels (DefaultConfig layered_provider)) ++
          entries layered_store (ExtraLabels (group_config layered_provider ''prod'')) ++
          decoded_entries (ExtraLabels sample_fragment) \<and>
        entries h' (ExtraAnnotations cfg) =
          entries layered_store (ExtraAnnotations (DefaultConfig layered_provider)) ++
          entries layered_store (ExtraAnnotations (group_config layered_provider ''prod'')) ++
          decoded_entries (ExtraAnnotations sample_fragment)"
    by (elim conjE)
  then obtain h' cfg err layered where
    c: "GetConfig sample_decoder layered_store layered_provider ''prod'' layered_alert =
         (h', Some cfg, err)"
    and v: "Validate layered = (cfg, err)"
    and u: "URL layered = ''http://am:9093''"
    and ti: "Timeout layered = 30 * Second"
    and se: "DefaultSeverity layered = ''page''"
    and l: "entries h' (ExtraLabels cfg) =
        [''team'' \<mapsto> ''platform''] ++ [''team'' \<mapsto> ''payments'', ''tier'' \<mapsto> ''gold''] ++
        [''tier'' \<mapsto> ''platinum'']"
    and a: "entries h' (ExtraAnnotations cfg) = Map.empty"
    unfolding eD eG eF sF sG sD by (auto simp add: Second_def)
  from v have "cfg = fst (Validate layered)" "err = snd (Validate layered)" by simp_all
  with u ti se have "err = None" "URL cfg = ''http://am:9093''" "Timeout cfg = 30 * Second"
    "DefaultSeverity cfg = ''page''"
    by (simp_all add: Validate_fields Second_def)
  with c l a show ?thesis by simp
qed


lemma GetConfig_decode_error:
  assumes pa: "provider_allocated h provider"
    and F: "alert_override decode alert = Inl msg"
  obtains h' where "GetConfig decode h provider grp alert = (h', None, Some (ErrYaml msg))"
    and "next_ref h \<le> next_ref h'"
    and "\<forall>r < next_ref h. cells h' r = cells h r"
proof -
  from pa obtain h3 cfg3 where
    g: "GetConfig decode h provider grp alert =
     (if ProviderOverride alert \<noteq> [] then
        (case yaml_Unmarshal decode h3 (ProviderOverrideAsBytes alert) of
           (h, Inl err) \<Rightarrow> (h, None, Some (ErrYaml err))
         | (h, Inr overrideConfig) \<Rightarrow>
             (fst (Merge h cfg3 overrideConfig),
              Some (fst (Validate (snd (Merge h cfg3 overrideConfig)))),
              snd (Validate (snd (Merge h cfg3 overrideConfig)))))
      else (h3, Some (fst (Validate cfg3)), snd (Validate cfg3)))"
    and p3: "call_local h h3 cfg3"
    by (rule GetConfig_group_layer [of h provider decode grp alert])
  from F have ne: "ProviderOverride alert \<noteq> []"
    and d: "decode (ProviderOverrideAsBytes alert) = Inl msg"
    by (auto simp add: alert_override_def split: if_splits)
  from g ne d yaml_Unmarshal_error [of decode "ProviderOverrideAsBytes alert" msg h3]
  have "GetConfig decode h provider grp alert = (h3, None, Some (ErrYaml msg))" by simp
  moreover from p3 have "next_ref h \<le> next_ref h3" "\<forall>r < next_ref h. cells h3 r = cells h r"
    by (simp_all add: call_local_def)
  ultimately show ?thesis by (rule that)
qed


lemma Validate_map_refs: "map_refs (fst (Validate c)) = map_refs c"
  by (simp add: map_refs_def Validate_fields)

lemma GetConfig_frame:
  assumes pa: "provider_allocated h provider"
    and c: "GetConfig decode h provider grp alert = (h1, r1, err1)"
  shows "next_ref h \<le> next_ref h1"
    and "\<forall>r < next_ref h. cells h1 r = cells h r"
    and "\<forall>cfg. r1 = Some cfg \<longrightarrow> (\<forall>r \<in> map_refs cfg. next_ref h \<le> r \<and> r < next_ref h1)"
proof -
  have "next_ref h \<le> next_ref h1 \<and> (\<forall>r < next_ref h. cells h1 r = cells h r) \<and>
    (\<forall>cfg. r1 = Some cfg \<longrightarrow> (\<forall>r \<in> map_refs cfg. next_ref h \<le> r \<and> r < next_ref h1))"
  proof (cases "alert_override decode alert")
    case (Inl msg)
    with pa obtain h' where "GetConfig decode h provider grp alert = (h', None, Some (ErrYaml msg))"
      and "next_ref h \<le> next_ref h'" and "\<forall>r < next_ref h. cells h' r = cells h r"
      by (rule GetConfig_decode_error)
    with c show ?thesis by simp
  next
    case (Inr F)
    with pa obtain h' layered where
      "GetConfig decode h provider grp alert =
         (h', Some (fst (Validate layered)), snd (Validate layered))"
      and "call_local h h' layered"
      by (rule GetConfig_layers)
    with c show ?thesis by (auto simp add: call_local_def Validate_map_refs)
  qed
  then have 1: "next_ref h \<le> next_ref h1"
    and rest: "(\<forall>r < next_ref h. cells h1 r = cells h r) \<and>
    (\<forall>cfg. r1 = Some cfg \<longrightarrow> (\<forall>r \<in> map_refs cfg. next_ref h \<le> r \<and> r < next_ref h1))"
    by (rule conjunct1, rule conjunct2)
  from 1 show "next_ref h \<le> next_ref h1" .
  from rest show "\<forall>r < next_ref h. cells h1 r = cells h r" by (rule conjunct1)
  from rest show "\<forall>cfg. r1 = Some cfg \<longrightarrow>
      (\<forall>r \<in> map_refs cfg. next_ref h \<le> r \<and> r < next_ref h1)"
    by (rule conjunct2)
qed

lemma provider_allocated_later:
  "provider_allocated h provider \<Longrightarrow> next_ref h \<le> next_ref h' \<Longrightarrow>
     provider_allocated h' provider"
  by (fastforce simp add: provider_allocated_def allocated_def)

lemma allocated_entries_later:
  assumes "allocated h cfg" and "\<forall>r < next_ref h. cells h' r = cells h r"
  shows "entries h' (ExtraLabels cfg) = entries h (ExtraLabels cfg)"
    and "entries h' (ExtraAnnotations cfg) = entries h (ExtraAnnotations cfg)"
  using assms(1)
  by (auto intro!: entries_frame [OF assms(2)] simp add: allocated_def map_refs_def)

lemma GetConfig_repeatable:
  assumes pa: "provider_allocated h provider"
    and n: "next_ref h \<le> next_ref h1"
    and f: "\<forall>r < next_ref h. cells h1 r = cells h r"
    and c1: "GetConfig decode h provider grp alert = (h1', r1, err1)"
    and c2: "GetConfig decode h1 provider grp alert = (h2, r2, err2)"
  shows "err2 = err1" and "r2 = None \<longleftrightarrow> r1 = None"
    and "\<forall>cfg1 cfg2. r1 = Some cfg1 \<and> r2 = Some cfg2 \<longrightarrow>
       URL cfg2 = URL cfg1 \<and> Timeout cfg2 = Timeout cfg1 \<and>
       DefaultSeverity cfg2 = DefaultSeverity cfg1 \<and> ClientConfig cfg2 = ClientConfig cfg1 \<and>
       (ExtraLabels cfg2 = None \<longleftrightarrow> ExtraLabels cfg1 = None) \<and>
       (ExtraAnnotations cfg2 = None \<longleftrightarrow> ExtraAnnotations cfg1 = None) \<and>
       entries h2 (ExtraLabels cfg2) = entries h1' (ExtraLabels cfg1) \<and>
       entries h2 (ExtraAnnotations cfg2) = entries h1' (ExtraAnnotations cfg1)"
proof -
  let ?D = "DefaultConfig provider" and ?G = "group_config provider grp"
  from pa n have pa1: "provider_allocated h1 provider" by (rule provider_allocated_later)
  from pa have "allocated h ?D" by (simp add: provider_allocated_def)
  note eD = allocated_entries_later [OF this f]
  from pa have "allocated h ?G" by (rule group_config_allocated)
  note eG = allocated_entries_later [OF this f]
  from eG have lG: "len_pos h1 (ExtraLabels ?G) = len_pos h (ExtraLabels ?G)"
    "len_pos h1 (ExtraAnnotations ?G) = len_pos h (ExtraAnnotations ?G)"
    by (simp_all add: len_pos_def)
  have "err2 = err1 \<and> (r2 = None \<longleftrightarrow> r1 = None) \<and>
    (\<forall>cfg1 cfg2. r1 = Some cfg1 \<and> r2 = Some cfg2 \<longrightarrow>
       URL cfg2 = URL cfg1 \<and> Timeout cfg2 = Timeout cfg1 \<and>
       DefaultSeverity cfg2 = DefaultSeverity cfg1 \<and> ClientConfig cfg2 = ClientConfig cfg1 \<and>
       (ExtraLabels cfg2 = None \<longleftrightarrow> ExtraLabels cfg1 = None) \<and>
       (ExtraAnnotations cfg2 = None \<longleftrightarrow> ExtraAnnotations cfg1 = None) \<and>
       entries h2 (ExtraLabels cfg2) = entries h1' (ExtraLabels cfg1) \<and>
       entries h2 (ExtraAnnotations cfg2) = entries h1' (ExtraAnnotations cfg1))"
  proof (cases "alert_override decode alert")
    case (Inl msg)
    from pa Inl obtain ha where
      "GetConfig decode h provider grp alert = (ha, None, Some (ErrYaml msg))"
      by (rule GetConfig_decode_error)
    moreover from pa1 Inl obtain hb where
      "GetConfig decode h1 provider grp alert = (hb, None, Some (ErrYaml msg))"
      by (rule GetConfig_decode_error)
    ultimately show ?thesis using c1 c2 by simp
  next
    case (Inr F)
    from pa Inr obtain ha la where
      ga: "GetConfig decode h provider grp alert =
         (ha, Some (fst (Validate la)), snd (Validate la))"
      and sa: "URL la =
          (if URL F \<noteq> [] then URL F
           else if URL ?G \<noteq> [] then URL ?G else URL ?D)"
        "Timeout la =
          (if 0 < Timeout F then Timeout F
           else if 0 < Timeout ?G then Timeout ?G else Timeout ?D)"
        "DefaultSeverity la =
          (if DefaultSeverity F \<noteq> [] then DefaultSeverity F
           else if DefaultSeverity ?G \<noteq> [] then DefaultSeverity ?G
           else DefaultSeverity ?D)"
        "ClientConfig la =
          (if ClientConfig F \<noteq> None then ClientConfig F
           else if ClientConfig ?G \<noteq> None then ClientConfig ?G
           else ClientConfig ?D)"
      and ea: "entries ha (ExtraLabels la) =
           entries h (ExtraLabels ?D) ++ entries h (ExtraLabels ?G) ++
           decoded_entries (ExtraLabels F)"
        "entries ha (ExtraAnnotations la) =
           entries h (ExtraAnnotations ?D) ++ entries h (ExtraAnnotations ?G) ++
           decoded_entries (ExtraAnnotations F)"
      and na: "ExtraLabels la = None \<longleftrightarrow>
           ExtraLabels ?D = None \<and> \<not> len_pos h (ExtraLabels ?G) \<and>
           decoded_entries (ExtraLabels F) = Map.empty"
        "ExtraAnnotations la = None \<longleftrightarrow>
           ExtraAnnotations ?D = None \<and> \<not> len_pos h (ExtraAnnotations ?G) \<and>
           decoded_entries (ExtraAnnotations F) = Map.empty"
      by (rule GetConfig_layers [of h provider decode alert F grp])
    from pa1 Inr obtain hb lb where
      gb: "GetConfig decode h1 provider grp alert =
         (hb, Some (fst (Validate lb)), snd (Validate lb))"
      and sb: "URL lb =
          (if URL F \<noteq> [] then URL F
           else if URL ?G \<noteq> [] then URL ?G else URL ?D)"
        "Timeout lb =
          (if 0 < Timeout F then Timeout F
           else if 0 < Timeout ?G then Timeout ?G else Timeout ?D)"
        "DefaultSeverity lb =
          (if DefaultSeverity F \<noteq> [] then DefaultSeverity F
           else if DefaultSeverity ?G \<noteq> [] then DefaultSeverity ?G
           else DefaultSeverity ?D)"
        "ClientConfig lb =
          (if ClientConfig F \<noteq> None then ClientConfig F
           else if ClientConfig ?G \<noteq> None then ClientConfig ?G
           else ClientConfig ?D)"
      and eb: "entries hb (ExtraLabels lb) =
           entries h1 (ExtraLabels ?D) ++ entries h1 (ExtraLabels ?G) ++
           decoded_entries (ExtraLabels F)"
        "entries hb (ExtraAnnotations lb) =
           entries h1 (ExtraAnnotations ?D) ++ entries h1 (ExtraAnnotations ?G) ++
           decoded_entries (ExtraAnnotations F)"
      and nb: "ExtraLabels lb = None \<longleftrightarrow>
           ExtraLabels ?D = None \<and> \<not> len_pos h1 (ExtraLabels ?G) \<and>
           decoded_entries (ExtraLabels F) = Map.empty"
        "ExtraAnnotations lb = None \<longleftrightarrow>
           ExtraAnnotations ?D = None \<and> \<not> len_pos h1 (ExtraAnnotations ?G) \<and>
           decoded_entries (ExtraAnnotations F) = Map.empty"
      by (rule GetConfig_layers [of h1 provider decode alert F grp])
    have s: "URL lb = URL la" "Timeout lb = Timeout la" "DefaultSeverity lb = DefaultSeverity la"
      "ClientConfig lb = ClientConfig la"
      by (simp_all only: sa sb)
    have e: "entries hb (ExtraLabels lb) = entries ha (ExtraLabels la)"
      "entries hb (ExtraAnnotations lb) = entries ha (ExtraAnnotations la)"
      by (simp_all only: ea eb eD eG)
    have nn: "ExtraLabels lb = None \<longleftrightarrow> ExtraLabels la = None"
      "ExtraAnnotations lb = None \<longleftrightarrow> ExtraAnnotations la = None"
      by (simp_all only: na nb lG)
    from c1 ga have 1: "h1' = ha" "r1 = Some (fst (Validate la))" "err1 = snd (Validate la)"
      by simp_all
    from c2 gb have 2: "h2 = hb" "r2 = Some (fst (Validate lb))" "err2 = snd (Validate lb)"
      by simp_all
    show ?thesis
      by (simp add: 1 2 Validate_fields s e nn)
  qed
  then have 1: "err2 = err1"
    and rest: "(r2 = None \<longleftrightarrow> r1 = None) \<and>
    (\<forall>cfg1 cfg2. r1 = Some cfg1 \<and> r2 = Some cfg2 \<longrightarrow>
       URL cfg2 = URL cfg1 \<and> Timeout cfg2 = Timeout cfg1 \<and>
       DefaultSeverity cfg2 = DefaultSeverity cfg1 \<and> ClientConfig cfg2 = ClientConfig cfg1 \<and>
       (ExtraLabels cfg2 = None \<longleftrightarrow> ExtraLabels cfg1 = None) \<and>
       (ExtraAnnotations cfg2 = None \<longleftrightarrow> ExtraAnnotations cfg1 = None) \<and>
       entries h2 (ExtraLabels cfg2) = entries h1' (ExtraLabels cfg1) \<and>
       entries h2 (ExtraAnnotations cfg2) = entries h1' (ExtraAnnotations cfg1))"
    by (rule conjunct1, rule conjunct2)
  from 1 show "err2 = err1" .
  from rest show "r2 = None \<longleftrightarrow> r1 = None" by (rule conjunct1)
  from rest show "\<forall>cfg1 cfg2. r1 = Some cfg1 \<and> r2 = Some cfg2 \<longrightarrow>
       URL cfg2 = URL cfg1 \<and> Timeout cfg2 = Timeout cfg1 \<and>
       DefaultSeverity cfg2 = DefaultSeverity cfg1 \<and> ClientConfig cfg2 = ClientConfig cfg1 \<and>
       (ExtraLabels cfg2 = None \<longleftrightarrow> ExtraLabels cfg1 = None) \<and>
       (ExtraAnnotations cfg2 = None \<longleftrightarrow> ExtraAnnotations cfg1 = None) \<and>
       entries h2 (ExtraLabels cfg2) = entries h1' (ExtraLabels cfg1) \<and>
       entries h2 (ExtraAnnotations cfg2) = entries h1' (ExtraAnnotations cfg1)"
    by (rule conjunct2)
qed

text \<open>
  Claim C7. \<open>GetConfig\<close> leaves the provider as it was: the model has no provider after
  the call because the code assigns to no field of it (\<open>cfg\<close> is a copy of the default),
  and every map object that existed before the call, those of the default and of the
  overrides among them, has the entries it had. The maps of the returned configuration
  are objects made during the call, so none is an object of the provider. A second call
  with the same inputs returns the same error and a configuration with equal fields and
  equal map entries, whose maps are not the objects of the first result; it leaves the
  maps of the first result as they were.
\<close>

theorem GetConfig_no_side_effect:
  assumes pa: "provider_allocated h provider"
    and c1: "GetConfig decode h provider grp alert = (h1, r1, err1)"
    and c2: "GetConfig decode h1 provider grp alert = (h2, r2, err2)"
  shows
    "(\<forall>r < next_ref h. cells h1 r = cells h r) \<and>
     entries h1 (ExtraLabels (DefaultConfig provider)) =
       entries h (ExtraLabels (DefaultConfig provider)) \<and>
     entries h1 (ExtraAnnotations (DefaultConfig provider)) =
       entries h (ExtraAnnotations (DefaultConfig provider)) \<and>
     (\<forall>override \<in> set (Overrides provider).
        entries h1 (ExtraLabels (Config override)) = entries h (ExtraLabels (Config override)) \<and>
        entries h1 (ExtraAnnotations (Config override)) =
          entries h (ExtraAnnotations (Config override))) \<and>
     err2 = err1 \<and> (r2 = None \<longleftrightarrow> r1 = None) \<and>
     (\<forall>cfg1 cfg2. r1 = Some cfg1 \<and> r2 = Some cfg2 \<longrightarrow>
        (\<forall>r \<in> map_refs cfg1. next_ref h \<le> r \<and> r < next_ref h1) \<and>
        map_refs cfg1 \<inter> map_refs (DefaultConfig provider) = {} \<and>
        (\<forall>override \<in> set (Overrides provider).
           map_refs cfg1 \<inter> map_refs (Config override) = {}) \<and>
        URL cfg2 = URL cfg1 \<and> Timeout cfg2 = Timeout cfg1 \<and>
        DefaultSeverity cfg2 = DefaultSeverity cfg1 \<and> ClientConfig cfg2 = ClientConfig cfg1 \<and>
        (ExtraLabels cfg2 = None \<longleftrightarrow> ExtraLabels cfg1 = None) \<and>
        (ExtraAnnotations cfg2 = None \<longleftrightarrow> ExtraAnnotations cfg1 = None) \<and>
        entries h2 (ExtraLabels cfg2) = entries h1 (ExtraLabels cfg1) \<and>
        entries h2 (ExtraAnnotations cfg2) = entries h1 (ExtraAnnotations cfg1) \<and>
        entries h2 (ExtraLabels cfg1) = entries h1 (ExtraLabels cfg1) \<and>
        entries h2 (ExtraAnnotations cfg1) = entries h1 (ExtraAnnotations cfg1) \<and>
        map_refs cfg1 \<inter> map_refs cfg2 = {})"
proof -
  note f1 = GetConfig_frame [OF pa c1]
  from pa f1(1) have pa1: "provider_allocated h1 provider" by (rule provider_allocated_later)
  note f2 = GetConfig_frame [OF pa1 c2]
  note rp = GetConfig_repeatable [OF pa f1(1) f1(2) c1 c2]
  from pa have aD: "allocated h (DefaultConfig provider)"
    and aO: "\<forall>override \<in> set (Overrides provider). allocated h (Config override)"
    by (simp_all add: provider_allocated_def)
  note eD = allocated_entries_later [OF aD f1(2)]
  have eO: "\<forall>override \<in> set (Overrides provider).
        entries h1 (ExtraLabels (Config override)) = entries h (ExtraLabels (Config override)) \<and>
        entries h1 (ExtraAnnotations (Config override)) =
          entries h (ExtraAnnotations (Config override))"
    using aO allocated_entries_later [OF _ f1(2)] by blast
  have two: "(\<forall>r \<in> map_refs cfg1. next_ref h \<le> r \<and> r < next_ref h1) \<and>
        map_refs cfg1 \<inter> map_refs (DefaultConfig provider) = {} \<and>
        (\<forall>override \<in> set (Overrides provider).
           map_refs cfg1 \<inter> map_refs (Config override) = {}) \<and>
        URL cfg2 = URL cfg1 \<and> Timeout cfg2 = Timeout cfg1 \<and>
        DefaultSeverity cfg2 = DefaultSeverity cfg1 \<and> ClientConfig cfg2 = ClientConfig cfg1 \<and>
        (ExtraLabels cfg2 = None \<longleftrightarrow> ExtraLabels cfg1 = None) \<and>
        (ExtraAnnotations cfg2 = None \<longleftrightarrow> ExtraAnnotations cfg1 = None) \<and>
        entries h2 (ExtraLabels cfg2) = entries h1 (ExtraLabels cfg1) \<and>
        entries h2 (ExtraAnnotations cfg2) = entries h1 (ExtraAnnotations cfg1) \<and>
        entries h2 (ExtraLabels cfg1) = entries h1 (ExtraLabels cfg1) \<and>
        entries h2 (ExtraAnnotations cfg1) = entries h1 (ExtraAnnotations cfg1) \<and>
        map_refs cfg1 \<inter> map_refs cfg2 = {}"
    if r: "r1 = Some cfg1" "r2 = Some cfg2" for cfg1 cfg2
  proof -
    from f1(3) r(1) have fr1: "\<forall>r \<in> map_refs cfg1. next_ref h \<le> r \<and> r < next_ref h1" by simp
    from f2(3) r(2) have fr2: "\<forall>r \<in> map_refs cfg2. next_ref h1 \<le> r \<and> r < next_ref h2" by simp
    from fr1 aD have dD: "map_refs cfg1 \<inter> map_refs (DefaultConfig provider) = {}"
      by (fastforce simp add: allocated_def)
    from fr1 aO have dO: "\<forall>override \<in> set (Overrides provider).
           map_refs cfg1 \<inter> map_refs (Config override) = {}"
      by (fastforce simp add: allocated_def)
    from fr1 have "allocated h1 cfg1" by (simp add: allocated_def)
    note keep = allocated_entries_later [OF this f2(2)]
    from fr1 fr2 have dd: "map_refs cfg1 \<inter> map_refs cfg2 = {}" by fastforce
    note eq = rp(3) [rule_format, OF conjI [OF r]]
    from eq have 1: "URL cfg2 = URL cfg1" by (elim conjE)
    from eq have 2: "Timeout cfg2 = Timeout cfg1" by (elim conjE)
    from eq have 3: "DefaultSeverity cfg2 = DefaultSeverity cfg1" by (elim conjE)
    from eq have 4: "ClientConfig cfg2 = ClientConfig cfg1" by (elim conjE)
    from eq have 5: "ExtraLabels cfg2 = None \<longleftrightarrow> ExtraLabels cfg1 = None" by (elim conjE)
    from eq have 6: "ExtraAnnotations cfg2 = None \<longleftrightarrow> ExtraAnnotations cfg1 = None"
      by (elim conjE)
    from eq have 7: "entries h2 (ExtraLabels cfg2) = entries h1 (ExtraLabels cfg1)"
      by (elim conjE)
    from eq have 8: "entries h2 (ExtraAnnotations cfg2) = entries h1 (ExtraAnnotations cfg1)"
      by (elim conjE)
    from fr1 dD dO 1 2 3 4 5 6 7 8 keep dd show ?thesis by (intro conjI)
  qed
  then have q: "\<forall>cfg1 cfg2. r1 = Some cfg1 \<and> r2 = Some cfg2 \<longrightarrow>
        (\<forall>r \<in> map_refs cfg1. next_ref h \<le> r \<and> r < next_ref h1) \<and>
        map_refs cfg1 \<inter> map_refs (DefaultConfig provider) = {} \<and>
        (\<forall>override \<in> set (Overrides provider).
           map_refs cfg1 \<inter> map_refs (Config override) = {}) \<and>
        URL cfg2 = URL cfg1 \<and> Timeout cfg2 = Timeout cfg1 \<and>
        DefaultSeverity cfg2 = DefaultSeverity cfg1 \<and> ClientConfig cfg2 = ClientConfig cfg1 \<and>
        (ExtraLabels cfg2 = None \<longleftrightarrow> ExtraLabels cfg1 = None) \<and>
        (ExtraAnnotations cfg2 = None \<longleftrightarrow> ExtraAnnotations cfg1 = None) \<and>
        entries h2 (ExtraLabels cfg2) = entries h1 (ExtraLabels cfg1) \<and>
        entries h2 (ExtraAnnotations cfg2) = entries h1 (ExtraAnnotations cfg1) \<and>
        entries h2 (ExtraLabels cfg1) = entries h1 (ExtraLabels cfg1) \<and>
        entries h2 (ExtraAnnotations cfg1) = entries h1 (ExtraAnnotations cfg1) \<and>
        map_refs cfg1 \<inter> map_refs cfg2 = {}"
    by (intro allI impI) (elim conjE)
  from f1(2) eD eO rp(1) rp(2) q show ?thesis by (intro conjI)
qed


theorem GetConfig_no_side_effect_witness:
  "cells (fst first_call) 0 = [''team'' \<mapsto> ''platform''] \<and>
   cells (fst first_call) 1 = [''team'' \<mapsto> ''payments'', ''tier'' \<mapsto> ''gold''] \<and>
   snd (snd second_call) = snd (snd first_call) \<and>
   (\<exists>cfg1 cfg2.
      fst (snd first_call) = Some cfg1 \<and> fst (snd second_call) = Some cfg2 \<and>
      URL cfg2 = URL cfg1 \<and> Timeout cfg2 = Timeout cfg1 \<and>
      DefaultSeverity cfg2 = DefaultSeverity cfg1 \<and>
      entries (fst second_call) (ExtraLabels cfg2) = entries (fst first_call) (ExtraLabels cfg1) \<and>
      entries (fst second_call) (ExtraLabels cfg1) = entries (fst first_call) (ExtraLabels cfg1) \<and>
      ExtraLabels cfg1 = Some 2 \<and>
      ExtraLabels cfg2 \<noteq> None \<and> ExtraLabels cfg2 \<noteq> ExtraLabels cfg1 \<and>
      ExtraLabels cfg1 \<noteq> ExtraLabels (DefaultConfig layered_provider))"
proof -
  from first_call_eval obtain h1 where
    1: "first_call =
     (h1, Some \<lparr>URL = ''http://am:9093'', Timeout = 30 * Second, DefaultSeverity = ''page'',
                ExtraLabels = Some 2, ExtraAnnotations = None, ClientConfig = None\<rparr>, None)"
    (is "_ = (_, Some ?c1, _)")
    by blast
  obtain h2 r2 e2 where 2: "second_call = (h2, r2, e2)" by (cases second_call)
  from 1 have c1: "GetConfig sample_decoder layered_store layered_provider ''prod'' layered_alert
      = (h1, Some ?c1, None)"
    by (simp add: first_call_def)
  have p: "fst first_call = h1" "fst (snd first_call) = Some ?c1"
    "snd (snd first_call) = None"
    by (simp_all only: 1 fst_conv snd_conv)
  have p2: "fst second_call = h2" "fst (snd second_call) = r2" "snd (snd second_call) = e2"
    by (simp_all only: 2 fst_conv snd_conv)
  from 2 have c2: "GetConfig sample_decoder h1 layered_provider ''prod'' layered_alert
      = (h2, r2, e2)"
    unfolding second_call_def p .
  note t = GetConfig_no_side_effect [OF layered_allocated c1 c2]
  from t have f: "\<forall>r < next_ref layered_store. cells h1 r = cells layered_store r"
    by (elim conjE)
  then have f0: "cells h1 0 = [''team'' \<mapsto> ''platform'']"
    and f1: "cells h1 1 = [''team'' \<mapsto> ''payments'', ''tier'' \<mapsto> ''gold'']"
    by (simp_all add: layered_store_def)
  from t have e: "e2 = None" by (elim conjE)
  from t have n: "r2 = None \<longleftrightarrow> Some ?c1 = None" by (elim conjE)
  from n obtain cfg2 where r2: "r2 = Some cfg2" by auto
  from t have "\<forall>cfg1 cfg2. Some ?c1 = Some cfg1 \<and> r2 = Some cfg2 \<longrightarrow>
        (\<forall>r \<in> map_refs cfg1. next_ref layered_store \<le> r \<and> r < next_ref h1) \<and>
        map_refs cfg1 \<inter> map_refs (DefaultConfig layered_provider) = {} \<and>
        (\<forall>override \<in> set (Overrides layered_provider).
           map_refs cfg1 \<inter> map_refs (Config override) = {}) \<and>
        URL cfg2 = URL cfg1 \<and> Timeout cfg2 = Timeout cfg1 \<and>
        DefaultSeverity cfg2 = DefaultSeverity cfg1 \<and> ClientConfig cfg2 = ClientConfig cfg1 \<and>
        (ExtraLabels cfg2 = None \<longleftrightarrow> ExtraLabels cfg1 = None) \<and>
        (ExtraAnnotations cfg2 = None \<longleftrightarrow> ExtraAnnotations cfg1 = None) \<and>
        entries h2 (ExtraLabels cfg2) = entries h1 (ExtraLabels cfg1) \<and>
        entries h2 (ExtraAnnotations cfg2) = entries h1 (ExtraAnnotations cfg1) \<and>
        entries h2 (ExtraLabels cfg1) = entries h1 (ExtraLabels cfg1) \<and>
        entries h2 (ExtraAnnotations cfg1) = entries h1 (ExtraAnnotations cfg1) \<and>
        map_refs cfg1 \<inter> map_refs cfg2 = {}"
    by (elim conjE)
  note b = this [rule_format, OF conjI [OF refl r2]]
  from b have q1: "map_refs ?c1 \<inter> map_refs (DefaultConfig layered_provider) = {}"
    by (elim conjE)
  from b have q2: "URL cfg2 = URL ?c1" by (elim conjE)
  from b have q3: "Timeout cfg2 = Timeout ?c1" by (elim conjE)
  from b have q4: "DefaultSeverity cfg2 = DefaultSeverity ?c1" by (elim conjE)
  from b have q5: "ExtraLabels cfg2 = None \<longleftrightarrow> ExtraLabels ?c1 = None" by (elim conjE)
  from b have q6: "entries h2 (ExtraLabels cfg2) = entries h1 (ExtraLabels ?c1)" by (elim conjE)
  from b have q7: "entries h2 (ExtraLabels ?c1) = entries h1 (ExtraLabels ?c1)" by (elim conjE)
  from b have q8: "map_refs ?c1 \<inter> map_refs cfg2 = {}" by (elim conjE)
  from q5 obtain l2 where l2: "ExtraLabels cfg2 = Some l2" by auto
  with q8 have ne: "l2 \<noteq> 2" by (auto simp add: map_refs_def)
  have nd: "ExtraLabels ?c1 \<noteq> ExtraLabels (DefaultConfig layered_provider)"
    by (simp add: layered_provider_def)
  have "fst (snd first_call) = Some ?c1 \<and> fst (snd second_call) = Some cfg2 \<and>
      URL cfg2 = URL ?c1 \<and> Timeout cfg2 = Timeout ?c1 \<and>
      DefaultSeverity cfg2 = DefaultSeverity ?c1 \<and>
      entries (fst second_call) (ExtraLabels cfg2) = entries (fst first_call) (ExtraLabels ?c1) \<and>
      entries (fst second_call) (ExtraLabels ?c1) = entries (fst first_call) (ExtraLabels ?c1) \<and>
      ExtraLabels ?c1 = Some 2 \<and>
      ExtraLabels cfg2 \<noteq> None \<and> ExtraLabels cfg2 \<noteq> ExtraLabels ?c1 \<and>
      ExtraLabels ?c1 \<noteq> ExtraLabels (DefaultConfig layered_provider)"
    using p p2 r2 q2 q3 q4 q6 q7 l2 ne nd by simp
  then have "\<exists>cfg1 cfg2.
      fst (snd first_call) = Some cfg1 \<and> fst (snd second_call) = Some cfg2 \<and>
      URL cfg2 = URL cfg1 \<and> Timeout cfg2 = Timeout cfg1 \<and>
      DefaultSeverity cfg2 = DefaultSeverity cfg1 \<and>
      entries (fst second_call) (ExtraLabels cfg2) = entries (fst first_call) (ExtraLabels cfg1) \<and>
      entries (fst second_call) (ExtraLabels cfg1) = entries (fst first_call) (ExtraLabels cfg1) \<and>
      ExtraLabels cfg1 = Some 2 \<and>
      ExtraLabels cfg2 \<noteq> None \<and> ExtraLabels cfg2 \<noteq> ExtraLabels cfg1 \<and>
      ExtraLabels cfg1 \<noteq> ExtraLabels (DefaultConfig layered_provider)"
    by (intro exI)
  with f0 f1 e p p2 show ?thesis by simp
qed


text \<open>
  Claim C10. The group name is compared with \<open>=\<close> and the empty name is a name like any
  other: when an override of the provider has the empty Group, a call with the empty
  group name merges the first such override over the defaults (that very override when
  it is the only one with the empty Group), under the alert's override.
\<close>

theorem GetConfig_empty_group:
  assumes pa: "provider_allocated h provider"
    and F: "alert_override decode alert = Inr F"
    and mem: "override \<in> set (Overrides provider)"
    and emp: "Group override = []"
  shows
    "\<exists>before ov after.
        Overrides provider = before @ ov # after \<and> Group ov = [] \<and>
        (\<forall>earlier \<in> set before. Group earlier \<noteq> []) \<and>
        ((\<forall>other \<in> set (Overrides provider). Group other = [] \<longrightarrow> other = override) \<longrightarrow>
           ov = override) \<and>
        (\<exists>h' cfg err layered.
           GetConfig decode h provider [] alert = (h', Some cfg, err) \<and>
           Validate layered = (cfg, err) \<and>
           URL layered =
             (if URL F \<noteq> [] then URL F
              else if URL (Config ov) \<noteq> [] then URL (Config ov)
              else URL (DefaultConfig provider)) \<and>
           Timeout layered =
             (if 0 < Timeout F then Timeout F
              else if 0 < Timeout (Config ov) then Timeout (Config ov)
              else Timeout (DefaultConfig provider)) \<and>
           DefaultSeverity layered =
             (if DefaultSeverity F \<noteq> [] then DefaultSeverity F
              else if DefaultSeverity (Config ov) \<noteq> [] then DefaultSeverity (Config ov)
              else DefaultSeverity (DefaultConfig provider)) \<and>
           ClientConfig layered =
             (if ClientConfig F \<noteq> None then ClientConfig F
              else if ClientConfig (Config ov) \<noteq> None then ClientConfig (Config ov)
              else ClientConfig (DefaultConfig provider)) \<and>
           entries h' (ExtraLabels cfg) =
             entries h (ExtraLabels (DefaultConfig provider)) ++
             entries h (ExtraLabels (Config ov)) ++
             decoded_entries (ExtraLabels F) \<and>
           entries h' (ExtraAnnotations cfg) =
             entries h (ExtraAnnotations (DefaultConfig provider)) ++
             entries h (ExtraAnnotations (Config ov)) ++
             decoded_entries (ExtraAnnotations F))"
proof -
  from mem emp have "\<exists>x \<in> set (Overrides provider). Group x = []" by blast
  then obtain before ov after where
    sp: "Overrides provider = before @ ov # after" and ov: "Group ov = []"
    and bf: "\<forall>earlier \<in> set before. Group earlier \<noteq> []"
    by (auto dest!: split_list_first_prop)
  from sp ov bf have gc: "group_config provider [] = Config ov"
    by (rule group_config_first)
  from sp have "ov \<in> set (Overrides provider)" by simp
  with ov have only: "(\<forall>other \<in> set (Overrides provider). Group other = [] \<longrightarrow> other = override) \<longrightarrow>
           ov = override"
    by blast
  from pa F obtain h' layered where
    g: "GetConfig decode h provider [] alert =
       (h', Some (fst (Validate layered)), snd (Validate layered))"
    and s: "URL layered =
          (if URL F \<noteq> [] then URL F
           else if URL (group_config provider []) \<noteq> [] then URL (group_config provider [])
           else URL (DefaultConfig provider))"
      "Timeout layered =
          (if 0 < Timeout F then Timeout F
           else if 0 < Timeout (group_config provider [])
           then Timeout (group_config provider [])
           else Timeout (DefaultConfig provider))"
      "DefaultSeverity layered =
          (if DefaultSeverity F \<noteq> [] then DefaultSeverity F
           else if DefaultSeverity (group_config provider []) \<noteq> []
           then DefaultSeverity (group_config provider [])
           else DefaultSeverity (DefaultConfig provider))"
      "ClientConfig layered =
          (if ClientConfig F \<noteq> None then ClientConfig F
           else if ClientConfig (group_config provider []) \<noteq> None
           then ClientConfig (group_config provider [])
           else ClientConfig (DefaultConfig provider))"
    and e: "entries h' (ExtraLabels layered) =
           entries h (ExtraLabels (DefaultConfig provider)) ++
           entries h (ExtraLabels (group_config provider [])) ++
           decoded_entries (ExtraLabels F)"
      "entries h' (ExtraAnnotations layered) =
           entries h (ExtraAnnotations (DefaultConfig provider)) ++
           entries h (ExtraAnnotations (group_config provider [])) ++
           decoded_entries (ExtraAnnotations F)"
    by (rule GetConfig_layers [of h provider decode alert F "[]"])
  have v: "Validate layered = (fst (Validate layered), snd (Validate layered))" by simp
  from e have e': "entries h' (ExtraLabels (fst (Validate layered))) =
           entries h (ExtraLabels (DefaultConfig provider)) ++
           entries h (ExtraLabels (Config ov)) ++
           decoded_entries (ExtraLabels F)"
      "entries h' (ExtraAnnotations (fst (Validate layered))) =
           entries h (ExtraAnnotations (DefaultConfig provider)) ++
           entries h (ExtraAnnotations (Config ov)) ++
           decoded_entries (ExtraAnnotations F)"
    by (simp_all add: Validate_fields gc)
  note s' = s [unfolded gc]
  from g v s' e' have "\<exists>h' cfg err layered.
           GetConfig decode h provider [] alert = (h', Some cfg, err) \<and>
           Validate layered = (cfg, err) \<and>
           URL layered =
             (if URL F \<noteq> [] then URL F
              else if URL (Config ov) \<noteq> [] then URL (Config ov)
              else URL (DefaultConfig provider)) \<and>
           Timeout layered =
             (if 0 < Timeout F then Timeout F
              else if 0 < Timeout (Config ov) then Timeout (Config ov)
              else Timeout (DefaultConfig provider)) \<and>
           DefaultSeverity layered =
             (if DefaultSeverity F \<noteq> [] then DefaultSeverity F
              else if DefaultSeverity (Config ov) \<noteq> [] then DefaultSeverity (Config ov)
              else DefaultSeverity (DefaultConfig provider)) \<and>
           ClientConfig layered =
             (if ClientConfig F \<noteq> None then ClientConfig F
              else if ClientConfig (Config ov) \<noteq> None then ClientConfig (Config ov)
              else ClientConfig (DefaultConfig provider)) \<and>
           entries h' (ExtraLabels cfg) =
             entries h (ExtraLabels (DefaultConfig provider)) ++
             entries h (ExtraLabels (Config ov)) ++
             decoded_entries (ExtraLabels F) \<and>
           entries h' (ExtraAnnotations cfg) =
             entries h (ExtraAnnotations (DefaultConfig provider)) ++
             entries h (ExtraAnnotations (Config ov)) ++
             decoded_entries (ExtraAnnotations F)"
    by blast
  with sp ov bf only show ?thesis by blast
qed

lemma plain_alert_override: "alert_override sample_decoder plain_alert = Inr zero_Config"
  by (simp add: alert_override_def plain_alert_def)

theorem GetConfig_empty_group_witness:
  "\<exists>h' cfg.
     GetConfig sample_decoder layered_store layered_provider [] plain_alert =
       (h', Some cfg, None) \<and>
     URL cfg = ''http://am:9093'' \<and> Timeout cfg = 10 * Second \<and>
     DefaultSeverity cfg = ''low'' \<and>
     entries h' (ExtraLabels cfg) = [''team'' \<mapsto> ''platform'']"
proof -
  let ?o = "last (Overrides layered_provider)"
  have mem: "?o \<in> set (Overrides layered_provider)" and emp: "Group ?o = []"
    and uniq: "\<forall>other \<in> set (Overrides layered_provider). Group other = [] \<longrightarrow> other = ?o"
    and co: "Config ?o = \<lparr>URL = [], Timeout = 0, DefaultSeverity = ''low'',
                    ExtraLabels = None, ExtraAnnotations = None, ClientConfig = None\<rparr>"
    by (simp_all add: layered_provider_def)
  from GetConfig_empty_group [OF layered_allocated plain_alert_override mem emp]
  obtain before ov after where
    all: "Overrides layered_provider = before @ ov # after \<and> Group ov = [] \<and>
        (\<forall>earlier \<in> set before. Group earlier \<noteq> []) \<and>
        ((\<forall>other \<in> set (Overrides layered_provider). Group other = [] \<longrightarrow> other = ?o) \<longrightarrow>
           ov = ?o) \<and>
        (\<exists>h' cfg err layered.
           GetConfig sample_decoder layered_store layered_provider [] plain_alert =
             (h', Some cfg, err) \<and>
           Validate layered = (cfg, err) \<and>
           URL layered =
             (if URL (zero_Config :: (gomap, unit) Config) \<noteq> [] then URL (zero_Config :: (gomap, unit) Config)
              else if URL (Config ov) \<noteq> [] then URL (Config ov)
              else URL (DefaultConfig layered_provider)) \<and>
           Timeout layered =
             (if 0 < Timeout (zero_Config :: (gomap, unit) Config) then Timeout (zero_Config :: (gomap, unit) Config)
              else if 0 < Timeout (Config ov) then Timeout (Config ov)
              else Timeout (DefaultConfig layered_provider)) \<and>
           DefaultSeverity layered =
             (if DefaultSeverity (zero_Config :: (gomap, unit) Config) \<noteq> [] then DefaultSeverity (zero_Config :: (gomap, unit) Config)
              else if DefaultSeverity (Config ov) \<noteq> [] then DefaultSeverity (Config ov)
              else DefaultSeverity (DefaultConfig layered_provider)) \<and>
           ClientConfig layered =
             (if ClientConfig (zero_Config :: (gomap, unit) Config) \<noteq> None then ClientConfig (zero_Config :: (gomap, unit) Config)
              else if ClientConfig (Config ov) \<noteq> None then ClientConfig (Config ov)
              else ClientConfig (DefaultConfig layered_provider)) \<and>
           entries h' (ExtraLabels cfg) =
             entries layered_store (ExtraLabels (DefaultConfig layered_provider)) ++
             entries layered_store (ExtraLabels (Config ov)) ++
             decoded_entries (ExtraLabels (zero_Config :: (gomap, unit) Config)) \<and>
           entries h' (ExtraAnnotations cfg) =
             entries layered_store (ExtraAnnotations (DefaultConfig layered_provider)) ++
             entries layered_store (ExtraAnnotations (Config ov)) ++
             decoded_entries (ExtraAnnotations (zero_Config :: (gomap, unit) Config)))"
    by blast
  from all have only: "(\<forall>other \<in> set (Overrides layered_provider). Group other = [] \<longrightarrow> other = ?o) \<longrightarrow>
           ov = ?o"
    by (elim conjE)
  from all have ex: "\<exists>h' cfg err layered.
           GetConfig sample_decoder layered_store layered_provider [] plain_alert =
             (h', Some cfg, err) \<and>
           Validate layered = (cfg, err) \<and>
           URL layered =
             (if URL (zero_Config :: (gomap, unit) Config) \<noteq> [] then URL (zero_Config :: (gomap, unit) Config)
              else if URL (Config ov) \<noteq> [] then URL (Config ov)
              else URL (DefaultConfig layered_provider)) \<and>
           Timeout layered =
             (if 0 < Timeout (zero_Config :: (gomap, unit) Config) then Timeout (zero_Config :: (gomap, unit) Config)
              else if 0 < Timeout (Config ov) then Timeout (Config ov)
              else Timeout (DefaultConfig layered_provider)) \<and>
           DefaultSeverity layered =
             (if DefaultSeverity (zero_Config :: (gomap, unit) Config) \<noteq> [] then DefaultSeverity (zero_Config :: (gomap, unit) Config)
              else if DefaultSeverity (Config ov) \<noteq> [] then DefaultSeverity (Config ov)
              else DefaultSeverity (DefaultConfig layered_provider)) \<and>
           ClientConfig layered =
             (if ClientConfig (zero_Config :: (gomap, unit) Config) \<noteq> None then ClientConfig (zero_Config :: (gomap, unit) Config)
              else if ClientConfig (Config ov) \<noteq> None then ClientConfig (Config ov)
              else ClientConfig (DefaultConfig layered_provider)) \<and>
           entries h' (ExtraLabels cfg) =
             entries layered_store (ExtraLabels (DefaultConfig layered_provider)) ++
             entries layered_store (ExtraLabels (Config ov)) ++
             decoded_entries (ExtraLabels (zero_Config :: (gomap, unit) Config)) \<and>
           entries h' (ExtraAnnotations cfg) =
             entries layered_store (ExtraAnnotations (DefaultConfig layered_provider)) ++
             entries layered_store (ExtraAnnotations (Config ov)) ++
             decoded_entries (ExtraAnnotations (zero_Config :: (gomap, unit) Config))"
    by (elim conjE)
  from only uniq have ov: "ov = ?o" by (rule mp)
  have z: "URL (zero_Config :: (gomap, unit) Config) = []"
    "Timeout (zero_Config :: (gomap, unit) Config) = 0"
    "DefaultSeverity (zero_Config :: (gomap, unit) Config) = []"
    "decoded_entries (ExtraLabels (zero_Config :: (gomap, unit) Config)) = Map.empty"
    by (simp_all add: zero_Config_def decoded_entries_def)
  have d: "URL (DefaultConfig layered_provider) = ''http://am:9093''"
    "Timeout (DefaultConfig layered_provider) = 0"
    "entries layered_store (ExtraLabels (DefaultConfig layered_provider)) =
      [''team'' \<mapsto> ''platform'']"
    by (simp_all add: layered_provider_def layered_store_def entries_def)
  have e: "entries layered_store (ExtraLabels (Config ?o)) = Map.empty"
    by (simp add: co entries_def)
  from ex obtain h' cfg err layered where
    c: "GetConfig sample_decoder layered_store layered_provider [] plain_alert =
         (h', Some cfg, err)"
    and v: "Validate layered = (cfg, err)"
    and u: "URL layered = ''http://am:9093''"
    and ti: "Timeout layered = 0"
    and se: "DefaultSeverity layered = ''low''"
    and l: "entries h' (ExtraLabels cfg) = [''team'' \<mapsto> ''platform'']"
    unfolding ov z d e by (auto simp add: co)
  from v have "cfg = fst (Validate layered)" "err = snd (Validate layered)" by simp_all
  with u ti se have "err = None" "URL cfg = ''http://am:9093''" "Timeout cfg = 10 * Second"
    "DefaultSeverity cfg = ''low''"
    by (simp_all add: Validate_fields)
  with c l show ?thesis by simp
qed

end
